theory Spec2Isabelle
  imports Main "HOL-Library.Word" "HOL-Library.Sublist"
begin

section \<open>Values of the SMTP notification plugin\<close>

text \<open>
  The plugin \<open>SmtpMsg\<close> (file \<open>plugins/smtpmsg/__init__.py\<close>) turns a notice event of the
  host into an e-mail and sends it through a main SMTP server, a backup server, or both.
  Python values are modelled by datatypes: \<open>None\<close> is \<open>None\<close> of an option type, an
  exception is the \<open>Inl\<close> side of a sum, and every call that leaves the process
  (smtplib, requests, the file system) is answered by a field of the record \<open>world\<close> and
  written to a trace of events.
\<close>

type_synonym bytes = "8 word list"

text \<open>A member of the host's enumeration \<open>NotificationType\<close>: its \<open>.name\<close> and its \<open>.value\<close>.\<close>

record notification_type =
  nt_name :: string
  nt_value :: string

text \<open>The \<open>type\<close> of an event: absent, a member of the enumeration, or any other object.\<close>

datatype msg_type_value = MtNone | MtEnum notification_type | MtOther string

text \<open>The \<open>image\<close> of an event: absent, a \<open>str\<close> or a \<open>bytes\<close> object.\<close>

datatype image_value = ImgNone | ImgStr string | ImgBytes bytes

text \<open>\<open>server_type\<close>: the two labels set by \<open>_determine_server\<close> (main, backup).\<close>

datatype server_type = MainServer | BackupServer

text \<open>
  Text handed to the template and the headers: a string of the event, or one of the
  literals of \<open>_msg_parameter_validation\<close>: the test mail type (line 1624), the test title
  built from the server label (1637), the plugin name in brackets (1639), the test text
  (1642) and the test user (1647).
\<close>

datatype mail_text = Txt string | TestMailType | TestTitle server_type | PluginTitle
  | TestText | TestUser

text \<open>The exception classes that the code names in its \<open>except\<close> clauses, and the rest.\<close>

datatype py_exn = SocketTimeout | SocketGaierror
  | SMTPConnectError int | SMTPAuthenticationError int | SMTPHeloError int
  | SMTPSenderRefused int | SMTPDataError int | SMTPResponseException int
  | SMTPServerDisconnected | SMTPNotSupportedError | SMTPRecipientsRefused | SMTPException
  | ConnectionError | FileNotFoundError | PermissionError | IsADirectoryError
  | UnicodeDecodeError | UnicodeEncodeError | HeaderParseError | KeyError | IndexError
  | TypeError | AttributeError | OtherException

text \<open>
  The messages of the exceptions that the plugin raises itself, one constructor for each
  \<open>raise Exception(...)\<close> of the dispatch path; a constructor with an argument is a message
  that quotes the exception it caught.
\<close>

datatype error =
    UnknownSmtpServerType
  | DetermineFailed error
  | InvalidSmtpServerType
  | UnsupportedMsgType
  | ValidationFailed error
  | IncompleteConfiguration server_type
  | ConfigException py_exn
  | ConnTimeout | ConnUnresolved | ConnRefused | ConnAuthFailed | ConnBadStatus int
  | ConnDisconnected | ConnAuthUnsupported | ConnUnknown
  | ReceiverFailed | SenderFailed | ReceiverSenderFailed error
  | TplNotFound | TplUnreadable | TplIsDirectory | TplNotUtf8 | TplReadUnknown py_exn
  | TplUnsupportedVariable | TplFormatUnknown py_exn
  | SubjectParse | SubjectEncode | SubjectType | SubjectUnknown
  | FromParse | FromEncode | FromType | FromUnknown
  | BodyBuildFailed error
  | SendTimeout | SendAddressRefused | SendDataRejected | SendDisconnected
  | SendAuthFailed | SendNotSupported | SendUnknown | SendUncaught py_exn
  | SendFailed server_type bool error
  | ResultLogUnknown
  | Uncaught py_exn
  | ModuleFailed error

text \<open>The plugin's settings, as \<open>init_plugin\<close> reads them (lines 143 to 167).\<close>

record config =
  enabled :: bool
  send_image :: bool
  main :: bool
  secondary :: bool
  test :: bool
  other_msgtypes :: bool
  enabled_customizable_mail_template :: bool
  main_smtp_host :: "string option"
  main_smtp_port :: "string option"
  main_smtp_encryption :: "string option"
  main_sender_mail :: "string option"
  main_sender_password :: "string option"
  secondary_smtp_host :: "string option"
  secondary_smtp_port :: "string option"
  secondary_smtp_encryption :: "string option"
  secondary_sender_mail :: "string option"
  secondary_sender_password :: "string option"
  sender_name :: "string option"
  receiver_mail :: string
  msgtypes :: "string list"

text \<open>The fields \<open>_host\<close>, \<open>_port\<close>, \<open>_encryption\<close>, \<open>_sender_mail\<close>, \<open>_password\<close> that
  \<open>_get_dict_value\<close> stores for the later stages.\<close>

record smtp_conn =
  host :: "string option"
  port :: "string option"
  encryption :: "string option"
  sender_mail :: "string option"
  password :: "string option"

text \<open>The receivers handed to \<open>sendmail\<close>: the split list, or the sender's address itself.\<close>

datatype receivers = ReceiverList "string list" | ReceiverSelf "string option"

text \<open>The object bound to \<open>image_data\<close>: nothing yet, a \<open>bytes\<close> object, or a \<open>MIMEImage\<close>
  with the headers added to it.\<close>

datatype image_data = DataNone | DataBytes bytes | DataMime bytes "(string \<times> string) list"

datatype mime_part = MultipartAlternative "string list" | InlineImage bytes "(string \<times> string) list"

record mime_message =
  hdr_subject :: "mail_text option"
  hdr_from :: "(string option \<times> string option) option"
  payload :: "mime_part list"

text \<open>
  What leaves the process, in order. \<open>EvConnect True\<close> is \<open>smtplib.SMTP_SSL(host, port)\<close>,
  \<open>EvConnect False\<close> is \<open>smtplib.SMTP(host, port)\<close>; \<open>EvMimeMultipart\<close> marks the creation of
  the message object in \<open>_msg_build_email\<close>.
\<close>

datatype event =
    EvConnect bool "string option" "string option"
  | EvStartTLS
  | EvEhlo "string option"
  | EvLogin "string option" "string option"
  | EvMimeMultipart
  | EvReadTemplate bool
  | EvHttpGet string
  | EvReadFile string
  | EvSendMail "string option" receivers mime_message
  | EvQuit

text \<open>
  The answers of the outside world to one server attempt. A call of smtplib answers with
  the exception it raises, if any. \<open>urlparse_scheme\<close> is \<open>urllib.parse.urlparse(s).scheme\<close>
  (or the exception \<open>urlparse\<close> raises), \<open>uses_netloc\<close> the list \<open>urllib.parse.uses_netloc\<close>,
  \<open>base64_regex_match\<close> whether the pattern of line 1915 matches,
  \<open>base64_regex_capture\<close> the text of its numbered groups, \<open>new_mime_image\<close> whether
  \<open>MIMEImage(data)\<close> can be built from the bytes of a file.
\<close>

record world =
  smtp_connect :: "bool \<Rightarrow> string option \<Rightarrow> string option \<Rightarrow> py_exn option"
  smtp_starttls :: "py_exn option"
  smtp_ehlo :: "string option \<Rightarrow> py_exn option"
  smtp_login :: "string option \<Rightarrow> string option \<Rightarrow> py_exn option"
  smtp_sendmail :: "string option \<Rightarrow> receivers \<Rightarrow> mime_message \<Rightarrow> py_exn option"
  smtp_quit :: "py_exn option"
  read_template :: "bool \<Rightarrow> py_exn + string"
  format_template :: "string \<Rightarrow> mail_text \<Rightarrow> image_value \<Rightarrow> mail_text \<Rightarrow> mail_text \<Rightarrow> mail_text \<Rightarrow> py_exn + string"
  set_subject :: "mail_text \<Rightarrow> py_exn option"
  set_from :: "string option \<Rightarrow> string option \<Rightarrow> py_exn option"
  urlparse_scheme :: "string \<Rightarrow> py_exn + string"
  uses_netloc :: "string list"
  requests_get :: "string \<Rightarrow> py_exn + (int \<times> bytes)"
  isfile :: "string \<Rightarrow> bool"
  read_file :: "string \<Rightarrow> py_exn + bytes"
  new_mime_image :: "bytes \<Rightarrow> bool"
  base64_regex_match :: "string \<Rightarrow> bool"
  base64_regex_capture :: "string \<Rightarrow> nat \<Rightarrow> string"
  b64decode :: "string \<Rightarrow> py_exn + bytes"
  new_mime_text :: "string \<Rightarrow> py_exn option"

section \<open>Results with a trace\<close>

type_synonym ('e, 'a) io = "event list \<times> ('e + 'a)"

definition io_return :: "'a \<Rightarrow> ('e, 'a) io" where
  "io_return x = ([], Inr x)"

definition io_raise :: "'e \<Rightarrow> ('e, 'a) io" where
  "io_raise e = ([], Inl e)"

definition io_bind :: "('e, 'a) io \<Rightarrow> ('a \<Rightarrow> ('e, 'b) io) \<Rightarrow> ('e, 'b) io" where
  "io_bind m f = (case m of
      (t, Inl e) \<Rightarrow> (t, Inl e)
    | (t, Inr x) \<Rightarrow> (case f x of (t', r) \<Rightarrow> (t @ t', r)))"

text \<open>A call to the outside: the event, then the exception it raised or its value.\<close>

definition io_call :: "event \<Rightarrow> py_exn option \<Rightarrow> (py_exn, unit) io" where
  "io_call ev r = ([ev], case r of None \<Rightarrow> Inr () | Some x \<Rightarrow> Inl x)"

definition io_read :: "event \<Rightarrow> py_exn + 'a \<Rightarrow> (py_exn, 'a) io" where
  "io_read ev r = ([ev], r)"

text \<open>An \<open>except\<close> clause that raises another exception in place of the one caught.\<close>

definition io_reraise :: "('e \<Rightarrow> 'f) \<Rightarrow> ('e, 'a) io \<Rightarrow> ('f, 'a) io" where
  "io_reraise h m = (case m of (t, Inl e) \<Rightarrow> (t, Inl (h e)) | (t, Inr x) \<Rightarrow> (t, Inr x))"

text \<open>
  \<open>SmtpMsgDecorator.log\<close> (lines 36 to 76): the wrapper returns what the function returns,
  and an exception of the function is raised again with the message of line 48.
\<close>

definition log_wrapper :: "error + 'a \<Rightarrow> error + 'a" where
  "log_wrapper r = (case r of Inl e \<Rightarrow> Inl (ModuleFailed e) | Inr x \<Rightarrow> Inr x)"

definition io_log_wrapper :: "(error, 'a) io \<Rightarrow> (error, 'a) io" where
  "io_log_wrapper m = io_reraise ModuleFailed m"

text \<open>Python truth of \<open>None\<close>, \<open>True\<close>, \<open>False\<close>, of a string that may be \<open>None\<close>, of an image.\<close>

definition truthy :: "bool option \<Rightarrow> bool" where
  "truthy s = (s = Some True)"

definition str_truthy :: "string option \<Rightarrow> bool" where
  "str_truthy s = (case s of None \<Rightarrow> False | Some x \<Rightarrow> x \<noteq> [])"

definition image_truthy :: "image_value \<Rightarrow> bool" where
  "image_truthy i = (case i of ImgNone \<Rightarrow> False | ImgStr s \<Rightarrow> s \<noteq> [] | ImgBytes b \<Rightarrow> b \<noteq> [])"

section \<open>Server selection\<close>

text \<open>\<open>_determine_server\<close> (lines 1538 to 1569). \<open>status\<close> starts as \<open>None\<close> and stays so
  when there is no earlier outcome and the slot is not 0.\<close>

definition determine_server_body :: "config \<Rightarrow> int \<Rightarrow> bool option \<Rightarrow> error + (bool option \<times> server_type)" where
  "determine_server_body cfg smtp_value success =
     (if smtp_value = 0 \<or> smtp_value = 1 then
        (let server_type = (if smtp_value = 0 then MainServer else BackupServer);
             status = (case success of
                 None \<Rightarrow> (if smtp_value = 0 then Some True else None)
               | Some s \<Rightarrow>
                   (if test cfg then Some (secondary cfg)
                    else if s then Some False
                    else Some (secondary cfg)))
         in Inr (status, server_type))
      else Inl (DetermineFailed UnknownSmtpServerType))"

definition determine_server :: "config \<Rightarrow> int \<Rightarrow> bool option \<Rightarrow> error + (bool option \<times> server_type)" where
  "determine_server cfg smtp_value success = log_wrapper (determine_server_body cfg smtp_value success)"

section \<open>Outcome reduction\<close>

text \<open>
  The sentences of \<open>_generate_result_log\<close> (lines 2010 to 2025); each is an f-string with
  \<open>test_type\<close> in it, so a summary is a sentence and whether it has the test wording.
\<close>

datatype sentence = AllServersSucceeded | MainOkBackupFailed | MainOkBackupNotStarted
  | MainOk | BackupOkMainFailed | AllServersFailed | MainFailedBackupNotStarted

type_synonym summary = "sentence \<times> bool"

text \<open>The function's result: the value it returns and the \<open>msg\<close> it leaves in the log.\<close>

record result_log =
  returned :: "summary option"
  logged :: "summary option"

definition generate_result_log_body :: "config \<Rightarrow> bool option \<Rightarrow> bool option \<Rightarrow> error + result_log" where
  "generate_result_log_body cfg m_success s_success =
     (let test_type = test cfg in
      case (case m_success of
          Some True \<Rightarrow>
            (case s_success of
               Some True \<Rightarrow> Inr (if test cfg then Some (AllServersSucceeded, test_type) else None)
             | Some False \<Rightarrow> Inr (if test cfg then Some (MainOkBackupFailed, test_type) else None)
             | None \<Rightarrow> Inr (if test cfg then Some (MainOkBackupNotStarted, test_type)
                            else Some (MainOk, test_type)))
        | Some False \<Rightarrow>
            (case s_success of
               Some True \<Rightarrow> Inr (Some (BackupOkMainFailed, test_type))
             | Some False \<Rightarrow> Inr (Some (AllServersFailed, test_type))
             | None \<Rightarrow> Inr (Some (MainFailedBackupNotStarted, test_type)))
        | None \<Rightarrow> Inl ResultLogUnknown) of
        Inl e \<Rightarrow> Inl e
      | Inr msg \<Rightarrow> Inr \<lparr>returned = (if test cfg then msg else None), logged = msg\<rparr>)"

definition generate_result_log :: "config \<Rightarrow> bool option \<Rightarrow> bool option \<Rightarrow> error + result_log" where
  "generate_result_log cfg m_success s_success =
     log_wrapper (generate_result_log_body cfg m_success s_success)"

section \<open>Parameter validation\<close>

definition test_image :: string where
  "test_image = ''/public/plugin_icon/Synomail_A.png''"

text \<open>\<open>_msg_parameter_validation\<close> (lines 1619 to 1667); the result is the tuple
  \<open>(title, text, image, userid, msg_type)\<close>.\<close>

definition msg_parameter_validation_body ::
  "config \<Rightarrow> server_type \<Rightarrow> msg_type_value \<Rightarrow> string option \<Rightarrow> string option \<Rightarrow> image_value
     \<Rightarrow> string option
     \<Rightarrow> error + (mail_text \<times> mail_text \<times> image_value \<times> mail_text \<times> mail_text)" where
  "msg_parameter_validation_body cfg server_type msg_type title text img userid =
     (case (if test cfg then Inr TestMailType
            else (case msg_type of
                MtEnum nt \<Rightarrow> Inr (Txt (nt_value nt))
              | MtNone \<Rightarrow> Inr (Txt [])
              | MtOther s \<Rightarrow> (if other_msgtypes cfg then Inr (Txt s) else Inl UnsupportedMsgType))) of
        Inl e \<Rightarrow> Inl (ValidationFailed e)
      | Inr msg_type' \<Rightarrow>
          (let title' = (if test cfg then TestTitle server_type
                         else (case title of Some t \<Rightarrow> Txt t | None \<Rightarrow> PluginTitle));
               text' = (if test cfg then TestText
                        else (case text of Some t \<Rightarrow> Txt t | None \<Rightarrow> Txt []));
               userid' = (if test cfg then TestUser
                          else (case userid of Some u \<Rightarrow> Txt u | None \<Rightarrow> Txt []));
               image' = (if test cfg then ImgStr test_image
                         else (case img of ImgNone \<Rightarrow> ImgStr [] | i \<Rightarrow> i))
           in Inr (title', text', image', userid', msg_type')))"

definition msg_parameter_validation ::
  "config \<Rightarrow> server_type \<Rightarrow> msg_type_value \<Rightarrow> string option \<Rightarrow> string option \<Rightarrow> image_value
     \<Rightarrow> string option
     \<Rightarrow> error + (mail_text \<times> mail_text \<times> image_value \<times> mail_text \<times> mail_text)" where
  "msg_parameter_validation cfg server_type msg_type title text img userid =
     log_wrapper (msg_parameter_validation_body cfg server_type msg_type title text img userid)"

section \<open>Configuration resolution\<close>

text \<open>\<open>__smtp_settings\<close> (lines 1698 to 1723): a dictionary of two dictionaries, each with
  all five keys, whatever the values.\<close>

definition smtp_settings :: "config \<Rightarrow> string \<rightharpoonup> (string \<rightharpoonup> string option)" where
  "smtp_settings cfg =
     [''main'' \<mapsto>
        [''host'' \<mapsto> main_smtp_host cfg,
         ''port'' \<mapsto> main_smtp_port cfg,
         ''encryption'' \<mapsto> main_smtp_encryption cfg,
         ''mail'' \<mapsto> main_sender_mail cfg,
         ''password'' \<mapsto> main_sender_password cfg],
      ''secondary'' \<mapsto>
        [''host'' \<mapsto> secondary_smtp_host cfg,
         ''port'' \<mapsto> secondary_smtp_port cfg,
         ''encryption'' \<mapsto> secondary_smtp_encryption cfg,
         ''mail'' \<mapsto> secondary_sender_mail cfg,
         ''password'' \<mapsto> secondary_sender_password cfg]]"

text \<open>A subscript \<open>d[k]\<close>: \<open>KeyError\<close> when the key is missing.\<close>

definition subscript :: "('k \<rightharpoonup> 'v) \<Rightarrow> 'k \<Rightarrow> py_exn + 'v" where
  "subscript d k = (case d k of None \<Rightarrow> Inl KeyError | Some v \<Rightarrow> Inr v)"

definition exn_bind :: "py_exn + 'a \<Rightarrow> ('a \<Rightarrow> py_exn + 'b) \<Rightarrow> py_exn + 'b" where
  "exn_bind r f = (case r of Inl x \<Rightarrow> Inl x | Inr v \<Rightarrow> f v)"

text \<open>\<open>_get_dict_value\<close> (lines 1670 to 1696): five subscripts of the settings; only a
  \<open>KeyError\<close> becomes the message that the configuration is incomplete (line 1687).\<close>

definition get_dict_value_body :: "config \<Rightarrow> server_type \<Rightarrow> string \<Rightarrow> error + smtp_conn" where
  "get_dict_value_body cfg server_type smtp_type =
     (case
        exn_bind (subscript (smtp_settings cfg) smtp_type) (\<lambda>d.
        exn_bind (subscript d ''host'') (\<lambda>h.
        exn_bind (subscript (smtp_settings cfg) smtp_type) (\<lambda>d.
        exn_bind (subscript d ''port'') (\<lambda>p.
        exn_bind (subscript (smtp_settings cfg) smtp_type) (\<lambda>d.
        exn_bind (subscript d ''encryption'') (\<lambda>e.
        exn_bind (subscript (smtp_settings cfg) smtp_type) (\<lambda>d.
        exn_bind (subscript d ''mail'') (\<lambda>m.
        exn_bind (subscript (smtp_settings cfg) smtp_type) (\<lambda>d.
        exn_bind (subscript d ''password'') (\<lambda>pw.
        Inr \<lparr>host = h, port = p, encryption = e, sender_mail = m, password = pw\<rparr>)))))))))) of
        Inl KeyError \<Rightarrow> Inl (IncompleteConfiguration server_type)
      | Inl x \<Rightarrow> Inl (ConfigException x)
      | Inr s \<Rightarrow> Inr s)"

definition get_dict_value :: "config \<Rightarrow> server_type \<Rightarrow> string \<Rightarrow> error + smtp_conn" where
  "get_dict_value cfg server_type smtp_type = log_wrapper (get_dict_value_body cfg server_type smtp_type)"

section \<open>Transport connection\<close>

text \<open>The \<open>except\<close> clauses of \<open>_connect_to_smtp_server\<close> (lines 1776 to 1791), in their
  order; the subclasses of \<open>SMTPResponseException\<close> not named before it fall to its clause.\<close>

fun connect_error :: "py_exn \<Rightarrow> error" where
  "connect_error SocketTimeout = ConnTimeout"
| "connect_error SocketGaierror = ConnUnresolved"
| "connect_error (SMTPConnectError c) = ConnRefused"
| "connect_error (SMTPAuthenticationError c) = ConnAuthFailed"
| "connect_error (SMTPHeloError c) = ConnBadStatus c"
| "connect_error (SMTPSenderRefused c) = ConnBadStatus c"
| "connect_error (SMTPDataError c) = ConnBadStatus c"
| "connect_error (SMTPResponseException c) = ConnBadStatus c"
| "connect_error SMTPServerDisconnected = ConnDisconnected"
| "connect_error SMTPNotSupportedError = ConnAuthUnsupported"
| "connect_error x = ConnUnknown"

text \<open>\<open>_connect_to_smtp_server\<close> (lines 1760 to 1798).\<close>

definition connect_to_smtp_server_body :: "world \<Rightarrow> smtp_conn \<Rightarrow> (error, unit) io" where
  "connect_to_smtp_server_body w s =
     io_reraise connect_error
       (io_bind
          (if encryption s = Some ''ssl'' then
             io_call (EvConnect True (host s) (port s)) (smtp_connect w True (host s) (port s))
           else
             io_bind
               (io_call (EvConnect False (host s) (port s)) (smtp_connect w False (host s) (port s)))
               (\<lambda>_. if encryption s = Some ''tls'' then io_call EvStartTLS (smtp_starttls w)
                     else io_return ()))
          (\<lambda>_. io_bind (io_call (EvEhlo (host s)) (smtp_ehlo w (host s)))
                  (\<lambda>_. io_call (EvLogin (sender_mail s) (password s))
                          (smtp_login w (sender_mail s) (password s)))))"

definition connect_to_smtp_server :: "world \<Rightarrow> smtp_conn \<Rightarrow> (error, unit) io" where
  "connect_to_smtp_server w s = io_log_wrapper (connect_to_smtp_server_body w s)"

section \<open>Receivers and sender\<close>

text \<open>\<open>str.split(",")\<close>.\<close>

fun split_comma :: "string \<Rightarrow> string list" where
  "split_comma [] = [[]]"
| "split_comma (c # cs) =
     (if c = CHR '','' then [] # split_comma cs
      else (case split_comma cs of [] \<Rightarrow> [[c]] | x # xs \<Rightarrow> (c # x) # xs))"

text \<open>\<open>_get_receiver_and_sender\<close> (lines 1726 to 1757).\<close>

definition get_receiver_and_sender_body ::
  "config \<Rightarrow> smtp_conn \<Rightarrow> error + (receivers \<times> string option \<times> string option)" where
  "get_receiver_and_sender_body cfg s =
     (let receiver_list = (if receiver_mail cfg \<noteq> [] then ReceiverList (split_comma (receiver_mail cfg))
                           else ReceiverSelf (sender_mail s));
          sender_name' = (if str_truthy (sender_name cfg) then sender_name cfg else sender_mail s)
      in Inr (receiver_list, sender_name', sender_mail s))"

definition get_receiver_and_sender ::
  "config \<Rightarrow> smtp_conn \<Rightarrow> error + (receivers \<times> string option \<times> string option)" where
  "get_receiver_and_sender cfg s = log_wrapper (get_receiver_and_sender_body cfg s)"

section \<open>Message construction\<close>

text \<open>\<open>__msg_build_read_email_template\<close> (lines 1814 to 1850): the custom template when the
  switch is on, else the packaged one, then \<open>str.format\<close> with the five values.\<close>

fun template_read_error :: "py_exn \<Rightarrow> error" where
  "template_read_error FileNotFoundError = TplNotFound"
| "template_read_error PermissionError = TplUnreadable"
| "template_read_error IsADirectoryError = TplIsDirectory"
| "template_read_error UnicodeDecodeError = TplNotUtf8"
| "template_read_error x = TplReadUnknown x"

fun template_format_error :: "py_exn \<Rightarrow> error" where
  "template_format_error KeyError = TplUnsupportedVariable"
| "template_format_error x = TplFormatUnknown x"

definition msg_build_read_email_template_body ::
  "config \<Rightarrow> world \<Rightarrow> mail_text \<Rightarrow> image_value \<Rightarrow> mail_text \<Rightarrow> mail_text \<Rightarrow> mail_text
     \<Rightarrow> (error, string) io" where
  "msg_build_read_email_template_body cfg w text img title userid msg_type =
     io_bind
       (io_reraise template_read_error
          (io_read (EvReadTemplate (enabled_customizable_mail_template cfg))
             (read_template w (enabled_customizable_mail_template cfg))))
       (\<lambda>template_content.
          io_reraise template_format_error
            ([], format_template w template_content text img title userid msg_type))"

definition msg_build_read_email_template ::
  "config \<Rightarrow> world \<Rightarrow> mail_text \<Rightarrow> image_value \<Rightarrow> mail_text \<Rightarrow> mail_text \<Rightarrow> mail_text
     \<Rightarrow> (error, string) io" where
  "msg_build_read_email_template cfg w text img title userid msg_type =
     io_log_wrapper (msg_build_read_email_template_body cfg w text img title userid msg_type)"

text \<open>\<open>__msg_build_email_Header\<close> (lines 1853 to 1886).\<close>

fun subject_error :: "py_exn \<Rightarrow> error" where
  "subject_error HeaderParseError = SubjectParse"
| "subject_error UnicodeEncodeError = SubjectEncode"
| "subject_error TypeError = SubjectType"
| "subject_error x = SubjectUnknown"

fun from_error :: "py_exn \<Rightarrow> error" where
  "from_error HeaderParseError = FromParse"
| "from_error UnicodeEncodeError = FromEncode"
| "from_error TypeError = FromType"
| "from_error x = FromUnknown"

definition msg_build_email_Header_body ::
  "world \<Rightarrow> mime_message \<Rightarrow> mail_text \<Rightarrow> string option \<Rightarrow> string option \<Rightarrow> error + mime_message" where
  "msg_build_email_Header_body w message title sender_name' sender_mail' =
     (case set_subject w title of
        Some x \<Rightarrow> Inl (subject_error x)
      | None \<Rightarrow>
          (case set_from w sender_name' sender_mail' of
             Some x \<Rightarrow> Inl (from_error x)
           | None \<Rightarrow> Inr (message\<lparr>hdr_subject := Some title,
                                  hdr_from := Some (sender_name', sender_mail')\<rparr>)))"

definition msg_build_email_Header ::
  "world \<Rightarrow> mime_message \<Rightarrow> mail_text \<Rightarrow> string option \<Rightarrow> string option \<Rightarrow> error + mime_message" where
  "msg_build_email_Header w message title sender_name' sender_mail' =
     log_wrapper (msg_build_email_Header_body w message title sender_name' sender_mail')"

subsection \<open>Image embedding\<close>

text \<open>The messages of the exceptions raised inside the embedding step; they end in its
  own log, never in an exception of the step.\<close>

datatype image_error =
    ImgBadStatus int
  | ImgRaised py_exn
  | ImgFetchFailed image_error
  | ImgPathMissing | ImgNoPermission | ImgIsDirectory | ImgReadFailed py_exn
  | ImgBase64Failed py_exn
  | ImgUnrecognized
  | ImgNotBinary

text \<open>What the step writes to its log: \<open>level\<close> and \<open>msg\<close> (lines 1951, 1958, 1961, 1964).\<close>

datatype embed_log = EmbedOk | EmbedSkipped image_error | NoImageGiven | ImageSendOff

fun embed_level :: "embed_log \<Rightarrow> int" where
  "embed_level EmbedOk = 1"
| "embed_level (EmbedSkipped e) = 2"
| "embed_level NoImageGiven = 1"
| "embed_level ImageSendOff = 1"

text \<open>The decorator reports level 2 as a warning (line 61); level 1 is a report, written
  only with verbose logging (line 58).\<close>

definition is_warning :: "embed_log \<Rightarrow> bool" where
  "is_warning l = (embed_level l = 2)"

text \<open>The pattern of line 1915 has two numbered groups and no named group.\<close>

definition base64_regex_groupindex :: "string \<rightharpoonup> nat" where
  "base64_regex_groupindex = Map.empty"

definition match_group :: "world \<Rightarrow> string \<Rightarrow> string \<Rightarrow> py_exn + string" where
  "match_group w s name =
     (case base64_regex_groupindex name of
        None \<Rightarrow> Inl IndexError
      | Some i \<Rightarrow> Inr (base64_regex_capture w s i))"

fun image_file_error :: "py_exn \<Rightarrow> image_error" where
  "image_file_error FileNotFoundError = ImgPathMissing"
| "image_file_error PermissionError = ImgNoPermission"
| "image_file_error IsADirectoryError = ImgIsDirectory"
| "image_file_error x = ImgReadFailed x"

text \<open>
  Lines 1916 to 1948: the branches that bind \<open>image_data\<close>. All of them are inside
  \<open>if isinstance(image, str)\<close>, the \<open>bytes\<close> branch included, so for a value that is not a
  \<open>str\<close> nothing is bound and \<open>image_data\<close> is still \<open>None\<close>.
\<close>

definition acquire_image :: "world \<Rightarrow> image_value \<Rightarrow> (image_error, image_data) io" where
  "acquire_image w img =
     (case img of
        ImgStr s \<Rightarrow>
          (case urlparse_scheme w s of
             Inl x \<Rightarrow> io_raise (ImgRaised x)
           | Inr scheme \<Rightarrow>
               if scheme \<in> set (uses_netloc w) then
                 io_reraise ImgFetchFailed
                   (io_bind (io_reraise ImgRaised (io_read (EvHttpGet s) (requests_get w s)))
                      (\<lambda>(status_code, content).
                          if status_code = 200 then io_return (DataBytes content)
                          else io_raise (ImgBadStatus status_code)))
               else if isfile w s then
                 io_reraise image_file_error
                   (io_bind (io_read (EvReadFile s) (read_file w s))
                      (\<lambda>data. if new_mime_image w data then io_return (DataMime data [])
                               else io_raise TypeError))
               else if base64_regex_match w s then
                 io_reraise ImgBase64Failed
                   ([], exn_bind (match_group w s ''base64_data'')
                          (\<lambda>base64_data. exn_bind (b64decode w base64_data)
                             (\<lambda>decoded. Inr (DataBytes decoded))))
               else io_raise ImgUnrecognized)
      | _ \<Rightarrow> io_return DataNone)"

text \<open>Lines 1949 and 1950: only a \<open>MIMEImage\<close> has \<open>add_header\<close>; on \<open>None\<close> and on a
  \<open>bytes\<close> object the call raises \<open>AttributeError\<close>.\<close>

definition add_header_and_attach :: "mime_message \<Rightarrow> image_data \<Rightarrow> image_error + mime_message" where
  "add_header_and_attach message image_data =
     (case image_data of
        DataMime data headers \<Rightarrow>
          Inr (message\<lparr>payload := payload message
                  @ [InlineImage data (headers @ [(''Content-ID'', ''<image>'')])]\<rparr>)
      | _ \<Rightarrow> Inl (ImgRaised AttributeError))"

text \<open>\<open>___msg_build_email_body_embed_image\<close> (lines 1909 to 1968): the message it returns
  and its log entry.\<close>

definition embed_image :: "config \<Rightarrow> world \<Rightarrow> image_value \<Rightarrow> mime_message
    \<Rightarrow> event list \<times> mime_message \<times> embed_log" where
  "embed_image cfg w img message =
     (if send_image cfg then
        (if image_truthy img then
           (case io_bind (acquire_image w img) (\<lambda>image_data. ([], add_header_and_attach message image_data)) of
              (t, Inr message') \<Rightarrow> (t, message', EmbedOk)
            | (t, Inl (ImgRaised TypeError)) \<Rightarrow> (t, message, EmbedSkipped ImgNotBinary)
            | (t, Inl e) \<Rightarrow> (t, message, EmbedSkipped e))
         else ([], message, NoImageGiven))
      else ([], message, ImageSendOff))"

text \<open>\<open>__msg_build_email_body\<close> (lines 1889 to 1906): the alternative part is attached
  first, the HTML is attached to it after the embedding step.\<close>

definition msg_build_email_body_body ::
  "config \<Rightarrow> world \<Rightarrow> mime_message \<Rightarrow> image_value \<Rightarrow> string \<Rightarrow> (error, mime_message) io" where
  "msg_build_email_body_body cfg w message img msg_html =
     (let n = length (payload message);
          message1 = message\<lparr>payload := payload message @ [MultipartAlternative []]\<rparr>
      in case embed_image cfg w img message1 of
           (t, message2, l) \<Rightarrow>
             (case new_mime_text w msg_html of
                Some x \<Rightarrow> (t, Inl (BodyBuildFailed (Uncaught x)))
              | None \<Rightarrow>
                  (t, Inr (message2\<lparr>payload := (payload message2)[n := MultipartAlternative [msg_html]]\<rparr>))))"

definition msg_build_email_body ::
  "config \<Rightarrow> world \<Rightarrow> mime_message \<Rightarrow> image_value \<Rightarrow> string \<Rightarrow> (error, mime_message) io" where
  "msg_build_email_body cfg w message img msg_html =
     io_log_wrapper (msg_build_email_body_body cfg w message img msg_html)"

text \<open>\<open>_msg_build_email\<close> (lines 1800 to 1811), called without a message.\<close>

definition new_message :: mime_message where
  "new_message = \<lparr>hdr_subject = None, hdr_from = None, payload = []\<rparr>"

definition msg_build_email ::
  "config \<Rightarrow> world \<Rightarrow> mail_text \<Rightarrow> mail_text \<Rightarrow> image_value \<Rightarrow> mail_text \<Rightarrow> mail_text
     \<Rightarrow> string option \<Rightarrow> string option \<Rightarrow> (error, mime_message) io" where
  "msg_build_email cfg w title text img userid msg_type sender_name' sender_mail' =
     io_bind ([EvMimeMultipart], Inr new_message) (\<lambda>message.
     io_bind (msg_build_read_email_template cfg w text img title userid msg_type) (\<lambda>msg_html.
     io_bind ([], msg_build_email_Header w message title sender_name' sender_mail') (\<lambda>message.
     msg_build_email_body cfg w message img msg_html)))"

section \<open>Transmission\<close>

text \<open>The \<open>except\<close> clauses of \<open>_send_msg_to_smtp\<close> (lines 1977 to 1990) in their order; an
  exception that none of them names reaches the outer clause of line 1994 as it is.\<close>

fun send_error :: "py_exn \<Rightarrow> error" where
  "send_error SocketTimeout = SendTimeout"
| "send_error SMTPRecipientsRefused = SendAddressRefused"
| "send_error (SMTPSenderRefused c) = SendAddressRefused"
| "send_error (SMTPDataError c) = SendDataRejected"
| "send_error SMTPServerDisconnected = SendDisconnected"
| "send_error ConnectionError = SendDisconnected"
| "send_error (SMTPAuthenticationError c) = SendAuthFailed"
| "send_error SMTPNotSupportedError = SendNotSupported"
| "send_error (SMTPConnectError c) = SendUnknown"
| "send_error (SMTPHeloError c) = SendUnknown"
| "send_error (SMTPResponseException c) = SendUnknown"
| "send_error SMTPException = SendUnknown"
| "send_error x = SendUncaught x"

definition send_msg_to_smtp_body ::
  "config \<Rightarrow> world \<Rightarrow> mime_message \<Rightarrow> string option \<Rightarrow> receivers \<Rightarrow> server_type \<Rightarrow> (error, bool) io" where
  "send_msg_to_smtp_body cfg w message sender_mail' receiver_list server_type =
     io_reraise (SendFailed server_type (test cfg))
       (io_bind
          (io_reraise send_error
             (io_call (EvSendMail sender_mail' receiver_list message)
                (smtp_sendmail w sender_mail' receiver_list message)))
          (\<lambda>_. io_return True))"

definition send_msg_to_smtp ::
  "config \<Rightarrow> world \<Rightarrow> mime_message \<Rightarrow> string option \<Rightarrow> receivers \<Rightarrow> server_type \<Rightarrow> (error, bool) io" where
  "send_msg_to_smtp cfg w message sender_mail' receiver_list server_type =
     io_log_wrapper (send_msg_to_smtp_body cfg w message sender_mail' receiver_list server_type)"

section \<open>One server attempt\<close>

text \<open>What \<open>_send_to_smtp\<close> leaves in its log (lines 1603 and 1610).\<close>

datatype send_log = MailSent | MailNotSent | ErrorOccurred error

text \<open>The stages after the connection (lines 1595 to 1601).\<close>

definition build_and_send ::
  "config \<Rightarrow> world \<Rightarrow> smtp_conn \<Rightarrow> server_type
     \<Rightarrow> (mail_text \<times> mail_text \<times> image_value \<times> mail_text \<times> mail_text) \<Rightarrow> (error, bool) io" where
  "build_and_send cfg w s server_type v =
     (case v of (title, text, img, userid, msg_type) \<Rightarrow>
        io_bind ([], get_receiver_and_sender cfg s) (\<lambda>(receiver_list, sender_name', sender_mail').
        io_bind (msg_build_email cfg w title text img userid msg_type sender_name' sender_mail') (\<lambda>message.
        send_msg_to_smtp cfg w message (sender_mail s) receiver_list server_type)))"

text \<open>
  \<open>_send_to_smtp\<close> (lines 1572 to 1616). Every exception of a stage is caught at line
  1607; when the connection had been opened the handler calls \<open>server.quit()\<close>, and an
  exception of that call is not caught.
\<close>

definition send_to_smtp_body ::
  "config \<Rightarrow> world \<Rightarrow> int \<Rightarrow> server_type \<Rightarrow> msg_type_value \<Rightarrow> string option \<Rightarrow> string option
     \<Rightarrow> image_value \<Rightarrow> string option \<Rightarrow> (error, bool \<times> send_log) io" where
  "send_to_smtp_body cfg w smtp_value server_type msg_type title text img userid =
     (if smtp_value = 0 \<or> smtp_value = 1 then
        (let smtp_type = (if smtp_value = 0 then ''main'' else ''secondary'') in
         case msg_parameter_validation cfg server_type msg_type title text img userid of
           Inl e \<Rightarrow> ([], Inr (False, ErrorOccurred e))
         | Inr v \<Rightarrow>
             (case get_dict_value cfg server_type smtp_type of
                Inl e \<Rightarrow> ([], Inr (False, ErrorOccurred e))
              | Inr s \<Rightarrow>
                  (case connect_to_smtp_server w s of
                     (t, Inl e) \<Rightarrow> (t, Inr (False, ErrorOccurred e))
                   | (t, Inr server) \<Rightarrow>
                       (case build_and_send cfg w s server_type v of
                          (t', Inr send_status) \<Rightarrow>
                            (t @ t', Inr (if send_status then (True, MailSent) else (False, MailNotSent)))
                        | (t', Inl e) \<Rightarrow>
                            (case smtp_quit w of
                               None \<Rightarrow> (t @ t' @ [EvQuit], Inr (False, ErrorOccurred e))
                             | Some x \<Rightarrow> (t @ t' @ [EvQuit], Inl (Uncaught x)))))))
      else ([], Inr (False, ErrorOccurred InvalidSmtpServerType)))"

definition send_to_smtp ::
  "config \<Rightarrow> world \<Rightarrow> int \<Rightarrow> server_type \<Rightarrow> msg_type_value \<Rightarrow> string option \<Rightarrow> string option
     \<Rightarrow> image_value \<Rightarrow> string option \<Rightarrow> (error, bool \<times> send_log) io" where
  "send_to_smtp cfg w smtp_value server_type msg_type title text img userid =
     io_log_wrapper (send_to_smtp_body cfg w smtp_value server_type msg_type title text img userid)"

section \<open>The orchestrator\<close>

text \<open>One call of \<open>_send_to_smtp\<close> as the orchestrator sees it: the slot, what left the
  process during the call, and what the call left in its log (nothing when it raised).\<close>

record attempt =
  slot :: int
  events :: "event list"
  outcome :: "send_log option"

text \<open>
  One of the two blocks of \<open>master_program\<close> (lines 1509 to 1515 and 1516 to 1522): the
  decision for the slot from the main server's outcome so far, then the attempt. The
  result is the value left in \<open>m_success\<close> or \<open>s_success\<close>, which stays \<open>None\<close> without an
  attempt.
\<close>

definition try_server ::
  "config \<Rightarrow> world \<Rightarrow> int \<Rightarrow> bool option \<Rightarrow> msg_type_value \<Rightarrow> string option \<Rightarrow> string option
     \<Rightarrow> image_value \<Rightarrow> string option \<Rightarrow> attempt list \<times> (error + bool option)" where
  "try_server cfg w smtp_value m_success msg_type title text img userid =
     (case determine_server cfg smtp_value m_success of
        Inl e \<Rightarrow> ([], Inl e)
      | Inr (success, server_type) \<Rightarrow>
          if truthy success then
            (case send_to_smtp cfg w smtp_value server_type msg_type title text img userid of
               (t, Inl e) \<Rightarrow> ([\<lparr>slot = smtp_value, events = t, outcome = None\<rparr>], Inl e)
             | (t, Inr (b, l)) \<Rightarrow> ([\<lparr>slot = smtp_value, events = t, outcome = Some l\<rparr>], Inr (Some b)))
          else ([], Inr None))"

text \<open>
  \<open>master_program\<close> (lines 1500 to 1525), with the world of the main attempt and the
  world of the backup attempt. The lock of line 1504 orders whole calls and is not part
  of the model.
\<close>

definition master_program ::
  "config \<Rightarrow> (int \<Rightarrow> world) \<Rightarrow> string option \<Rightarrow> string option \<Rightarrow> msg_type_value \<Rightarrow> string option
     \<Rightarrow> image_value \<Rightarrow> attempt list \<times> (error + summary option)" where
  "master_program cfg w title text msg_type userid img =
     (case (if main cfg then try_server cfg (w 0) 0 None msg_type title text img userid
            else ([], Inr None)) of
        (a1, Inl e) \<Rightarrow> (a1, Inl e)
      | (a1, Inr m_success) \<Rightarrow>
          (case (if secondary cfg then try_server cfg (w 1) 1 m_success msg_type title text img userid
                 else ([], Inr None)) of
             (a2, Inl e) \<Rightarrow> (a1 @ a2, Inl e)
           | (a2, Inr s_success) \<Rightarrow>
               (case generate_result_log cfg m_success s_success of
                  Inl e \<Rightarrow> (a1 @ a2, Inl e)
                | Inr r \<Rightarrow> (a1 @ a2, Inr (returned r)))))"

section \<open>The event handler\<close>

text \<open>The \<open>event_data\<close> of a notice event; \<open>msg_body.get\<close> gives \<open>None\<close> for a missing key.\<close>

record event_data =
  ed_channel :: "string option"
  ed_type :: msg_type_value
  ed_title :: "string option"
  ed_text :: "string option"
  ed_image :: image_value
  ed_userid :: "string option"

text \<open>What \<open>send\<close> did with an event: one of its early returns, an exception, or the call
  of \<open>master_program\<close> with its result.\<close>

datatype skip = PluginOff | NoEventData | HasChannel | NoTitleAndText | TypeNotEnabled

datatype handled = Skipped skip | Raised py_exn
  | Dispatched "attempt list \<times> (error + summary option)"

definition msg_type_truthy :: "msg_type_value \<Rightarrow> bool" where
  "msg_type_truthy t = (case t of MtNone \<Rightarrow> False | MtEnum nt \<Rightarrow> True | MtOther s \<Rightarrow> s \<noteq> [])"

text \<open>\<open>msg_type.name\<close>: an attribute of the enumeration's members only.\<close>

definition type_name :: "msg_type_value \<Rightarrow> py_exn + string" where
  "type_name t = (case t of MtEnum nt \<Rightarrow> Inr (nt_name nt) | _ \<Rightarrow> Inl AttributeError)"

text \<open>\<open>send\<close> (lines 1473 to 1498); \<open>None\<close> stands for an event without data.\<close>

definition send :: "config \<Rightarrow> (int \<Rightarrow> world) \<Rightarrow> event_data option \<Rightarrow> handled" where
  "send cfg w event =
     (if \<not> enabled cfg then Skipped PluginOff
      else case event of
        None \<Rightarrow> Skipped NoEventData
      | Some msg_body \<Rightarrow>
          if str_truthy (ed_channel msg_body) then Skipped HasChannel
          else if \<not> str_truthy (ed_title msg_body) \<and> \<not> str_truthy (ed_text msg_body)
            then Skipped NoTitleAndText
          else if msg_type_truthy (ed_type msg_body) \<and> msgtypes cfg \<noteq> [] then
            (case type_name (ed_type msg_body) of
               Inl x \<Rightarrow> Raised x
             | Inr name \<Rightarrow>
                 if name \<notin> set (msgtypes cfg) \<and> \<not> other_msgtypes cfg then Skipped TypeNotEnabled
                 else Dispatched (master_program cfg w (ed_title msg_body) (ed_text msg_body)
                        (ed_type msg_body) (ed_userid msg_body) (ed_image msg_body)))
          else Dispatched (master_program cfg w (ed_title msg_body) (ed_text msg_body)
                 (ed_type msg_body) (ed_userid msg_body) (ed_image msg_body)))"

section \<open>Concrete settings and worlds\<close>

text \<open>The settings that \<open>get_form\<close> gives a new installation (lines 1435 to 1460).\<close>

definition form_defaults :: config where
  "form_defaults = \<lparr>
     enabled = False, send_image = True, main = True, secondary = False, test = False,
     other_msgtypes = False, enabled_customizable_mail_template = False,
     main_smtp_host = Some [], main_smtp_port = Some [],
     main_smtp_encryption = Some ''not_encrypted'',
     main_sender_mail = Some [], main_sender_password = Some [],
     secondary_smtp_host = Some [], secondary_smtp_port = Some [],
     secondary_smtp_encryption = Some ''not_encrypted'',
     secondary_sender_mail = Some [], secondary_sender_password = Some [],
     sender_name = Some [], receiver_mail = [], msgtypes = []\<rparr>"

text \<open>A world in which every server accepts every step, and one in which no server
  accepts a connection.\<close>

definition accepting_world :: world where
  "accepting_world = \<lparr>
     smtp_connect = (\<lambda>ssl h p. None), smtp_starttls = None, smtp_ehlo = (\<lambda>h. None),
     smtp_login = (\<lambda>m p. None), smtp_sendmail = (\<lambda>m r msg. None), smtp_quit = None,
     read_template = (\<lambda>custom. Inr ''<p>notice</p>''),
     format_template = (\<lambda>c t i ti u m. Inr c),
     set_subject = (\<lambda>t. None), set_from = (\<lambda>n m. None),
     urlparse_scheme = (\<lambda>s. Inr []), uses_netloc = [[], ''http'', ''https''],
     requests_get = (\<lambda>u. Inl OtherException), isfile = (\<lambda>p. False),
     read_file = (\<lambda>p. Inl FileNotFoundError), new_mime_image = (\<lambda>b. True),
     base64_regex_match = (\<lambda>s. False), base64_regex_capture = (\<lambda>s i. []),
     b64decode = (\<lambda>s. Inl OtherException), new_mime_text = (\<lambda>h. None)\<rparr>"

definition refusing_world :: world where
  "refusing_world = accepting_world\<lparr>smtp_connect := (\<lambda>ssl h p. Some (SMTPConnectError 421))\<rparr>"

text \<open>A world in which the server accepts the session and drops it during \<open>sendmail\<close>,
  so that \<open>quit\<close> on the dead session raises as well.\<close>

definition dropping_world :: world where
  "dropping_world = accepting_world\<lparr>
     smtp_sendmail := (\<lambda>m r msg. Some SMTPServerDisconnected),
     smtp_quit := Some SMTPServerDisconnected\<rparr>"

text \<open>Both servers enabled and configured: the main one with implicit TLS, the backup one
  with STARTTLS.\<close>

definition two_servers :: config where
  "two_servers = form_defaults\<lparr>
     enabled := True, secondary := True,
     main_smtp_host := Some ''smtp.example.org'', main_smtp_port := Some ''465'',
     main_smtp_encryption := Some ''ssl'',
     main_sender_mail := Some ''bot@example.org'', main_sender_password := Some ''secret'',
     secondary_smtp_host := Some ''mail.example.net'', secondary_smtp_port := Some ''587'',
     secondary_smtp_encryption := Some ''tls'',
     secondary_sender_mail := Some ''bot@example.net'',
     secondary_sender_password := Some ''secret''\<rparr>"

text \<open>The settings of the two slots of \<open>two_servers\<close>, and those of a server without
  encryption.\<close>

definition main_slot :: smtp_conn where
  "main_slot = \<lparr>host = Some ''smtp.example.org'', port = Some ''465'', encryption = Some ''ssl'',
     sender_mail = Some ''bot@example.org'', password = Some ''secret''\<rparr>"

definition backup_slot :: smtp_conn where
  "backup_slot = \<lparr>host = Some ''mail.example.net'', port = Some ''587'', encryption = Some ''tls'',
     sender_mail = Some ''bot@example.net'', password = Some ''secret''\<rparr>"

definition plain_slot :: smtp_conn where
  "plain_slot = \<lparr>host = Some ''relay.example.com'', port = Some ''25'',
     encryption = Some ''not_encrypted'',
     sender_mail = Some ''bot@example.com'', password = Some ''secret''\<rparr>"

text \<open>A notice of the host with a type of the enumeration.\<close>

definition manual_notice :: event_data where
  "manual_notice = \<lparr>ed_channel = None,
     ed_type = MtEnum \<lparr>nt_name = ''Manual'', nt_value = ''manual''\<rparr>,
     ed_title = Some ''Download complete'', ed_text = None, ed_image = ImgNone,
     ed_userid = None\<rparr>"

section \<open>Properties of the stages\<close>

lemmas io_defs = io_return_def io_raise_def io_bind_def io_call_def io_read_def io_reraise_def
  io_log_wrapper_def log_wrapper_def

lemmas determine_defs = determine_server_def determine_server_body_def truthy_def

lemmas result_log_defs = generate_result_log_def generate_result_log_body_def

lemmas stage_defs = send_to_smtp_def send_to_smtp_body_def msg_parameter_validation_def
  msg_parameter_validation_body_def connect_to_smtp_server_def connect_to_smtp_server_body_def
  build_and_send_def get_receiver_and_sender_def get_receiver_and_sender_body_def
  msg_build_email_def msg_build_read_email_template_def msg_build_read_email_template_body_def
  msg_build_email_Header_def msg_build_email_Header_body_def msg_build_email_body_def
  msg_build_email_body_body_def embed_image_def acquire_image_def add_header_and_attach_def
  send_msg_to_smtp_def send_msg_to_smtp_body_def new_message_def str_truthy_def image_truthy_def

lemmas fixture_defs = form_defaults_def two_servers_def accepting_world_def refusing_world_def
  dropping_world_def
  main_slot_def backup_slot_def plain_slot_def manual_notice_def

lemma get_dict_value_main:
  "get_dict_value cfg st ''main'' = Inr \<lparr>host = main_smtp_host cfg, port = main_smtp_port cfg,
      encryption = main_smtp_encryption cfg, sender_mail = main_sender_mail cfg,
      password = main_sender_password cfg\<rparr>"
  by (simp add: get_dict_value_def get_dict_value_body_def smtp_settings_def subscript_def
      exn_bind_def log_wrapper_def)

lemma get_dict_value_secondary:
  "get_dict_value cfg st ''secondary'' = Inr \<lparr>host = secondary_smtp_host cfg,
      port = secondary_smtp_port cfg, encryption = secondary_smtp_encryption cfg,
      sender_mail = secondary_sender_mail cfg, password = secondary_sender_password cfg\<rparr>"
  by (simp add: get_dict_value_def get_dict_value_body_def smtp_settings_def subscript_def
      exn_bind_def log_wrapper_def)

lemma connect_starts:
  "\<exists>t r. connect_to_smtp_server w s
     = (EvConnect (encryption s = Some ''ssl'') (host s) (port s) # t, r)"
  by (auto simp add: connect_to_smtp_server_def connect_to_smtp_server_body_def io_defs
      split: option.splits)

text \<open>Once the parameters are valid, an attempt on slot 0 or 1 opens a connection.\<close>

lemma send_after_validation:
  assumes v: "msg_parameter_validation cfg st mt title text img userid = Inr v"
      and g: "get_dict_value cfg st (if sv = 0 then ''main'' else ''secondary'') = Inr s"
      and sv: "sv = 0 \<or> sv = 1"
  shows "\<exists>t r. send_to_smtp cfg w sv st mt title text img userid
           = (EvConnect (encryption s = Some ''ssl'') (host s) (port s) # t, r)"
proof -
  obtain t r where c: "connect_to_smtp_server w s
      = (EvConnect (encryption s = Some ''ssl'') (host s) (port s) # t, r)"
    using connect_starts by blast
  obtain t' r' where b: "build_and_send cfg w s st v = (t', r')"
    by (cases "build_and_send cfg w s st v") auto
  show ?thesis
    using v g sv c b
    by (cases r; cases r'; cases "smtp_quit w")
       (auto simp add: send_to_smtp_def send_to_smtp_body_def io_log_wrapper_def io_reraise_def)
qed

lemma validation_of_test_run:
  "test cfg \<Longrightarrow> \<exists>v. msg_parameter_validation cfg st mt title text img userid = Inr v"
  by (simp add: msg_parameter_validation_def msg_parameter_validation_body_def log_wrapper_def)

section \<open>Server selection with the main server disabled\<close>

text \<open>
  C1. With the main server disabled and the backup server enabled, the decision for the
  backup slot is taken with no earlier outcome. The claim expects the answer "attempt"
  and one attempt on the backup server. The code answers \<open>None\<close> for slot 1 without an
  earlier outcome (line 1547 sets the status for slot 0 only), so the orchestrator makes
  no attempt at all: its list of attempts is empty.
\<close>

theorem backup_alone_is_not_attempted:
  "determine_server (cfg\<lparr>main := False, secondary := True\<rparr>) 1 None = Inr (None, BackupServer)
   \<and> fst (master_program (cfg\<lparr>main := False, secondary := True\<rparr>) w title text msg_type userid img) = []"
  by (simp add: determine_defs log_wrapper_def master_program_def try_server_def result_log_defs)

section \<open>Classification of the image value\<close>

text \<open>
  C2. The claim expects a raw \<open>bytes\<close> payload to be embedded as it is and a data URI to
  be decoded as base64. In the code the \<open>bytes\<close> branch sits inside the branch for
  strings, so for a non-empty \<open>bytes\<close> value nothing is bound to \<open>image_data\<close>, the call
  of \<open>add_header\<close> raises, and the step ends with a skipped embedding and the message
  unchanged. A data URI whose scheme is not a network scheme and that names no file
  reaches the base64 branch, where the group \<open>base64_data\<close> is asked of a pattern that
  has no such group: the step ends with a skipped embedding again.
\<close>

theorem bytes_and_data_uri_are_not_embedded:
  "embed_image (cfg\<lparr>send_image := True\<rparr>) w (ImgBytes (b # bs)) message
     = ([], message, EmbedSkipped (ImgRaised AttributeError))
   \<and> embed_image (cfg\<lparr>send_image := True\<rparr>)
        (w\<lparr>urlparse_scheme := (\<lambda>u. Inr ''data''),
           uses_netloc := ['''', ''ftp'', ''http'', ''gopher'', ''nntp'', ''telnet'', ''imap'',
             ''wais'', ''file'', ''mms'', ''https'', ''shttp'', ''snews'', ''prospero'', ''rtsp'',
             ''rtsps'', ''rtspu'', ''rsync'', ''svn'', ''svn+ssh'', ''sftp'', ''nfs'', ''git'',
             ''git+ssh'', ''ws'', ''wss'', ''itms-services''],
           isfile := (\<lambda>p. False),
           base64_regex_match := (\<lambda>u. True)\<rparr>)
        (ImgStr ''data:image/png;base64,iVBORw0KGgo='') message
     = ([], message, EmbedSkipped (ImgBase64Failed IndexError))"
  by (simp add: embed_image_def image_truthy_def acquire_image_def add_header_and_attach_def
      io_defs match_group_def base64_regex_groupindex_def exn_bind_def)

section \<open>Unset fields of a server slot\<close>

text \<open>
  C3. The claim expects an attempt on a slot with an unset required field to fail with
  the incomplete-configuration error before any connection. In the code the settings
  dictionary always holds all five keys, so the \<open>KeyError\<close> clause of line 1686 is never
  taken: with the main password unset, \<open>_get_dict_value\<close> returns the settings with the
  password \<open>None\<close>, and the attempt of a test run on the main slot opens the connection
  to the configured host and port.
\<close>

theorem unset_field_reaches_the_connection:
  "get_dict_value (cfg\<lparr>main_sender_password := None\<rparr>) MainServer ''main''
     = Inr \<lparr>host = main_smtp_host cfg, port = main_smtp_port cfg,
            encryption = main_smtp_encryption cfg, sender_mail = main_sender_mail cfg,
            password = None\<rparr>
   \<and> (\<exists>t r. send_to_smtp (cfg\<lparr>test := True, main_sender_password := None\<rparr>) w 0 MainServer
                 msg_type title text img userid
         = (EvConnect (main_smtp_encryption cfg = Some ''ssl'') (main_smtp_host cfg)
              (main_smtp_port cfg) # t, r))"
proof -
  let ?cfg = "cfg\<lparr>test := True, main_sender_password := None\<rparr>"
  obtain v where v: "msg_parameter_validation ?cfg MainServer msg_type title text img userid = Inr v"
    using validation_of_test_run [of ?cfg] by fastforce
  have g: "get_dict_value ?cfg MainServer (if (0::int) = 0 then ''main'' else ''secondary'')
      = Inr \<lparr>host = main_smtp_host cfg, port = main_smtp_port cfg,
            encryption = main_smtp_encryption cfg, sender_mail = main_sender_mail cfg,
            password = None\<rparr>"
    by (simp add: get_dict_value_main)
  show ?thesis
    using send_after_validation [OF v g, of w] by (simp add: get_dict_value_main)
qed

section \<open>Exceptions of the orchestrator\<close>

text \<open>
  C6. The claim expects \<open>master_program\<close> never to raise. With the main server disabled
  and the backup server enabled no attempt is made (see C1), both outcomes are \<open>None\<close>,
  and \<open>_generate_result_log\<close> raises at line 2027; the orchestrator does not catch it, so
  the call ends with that exception, whatever the event and the world.
\<close>

theorem backup_alone_raises:
  "snd (master_program (cfg\<lparr>main := False, secondary := True\<rparr>) w title text msg_type userid img)
     = Inl (ModuleFailed ResultLogUnknown)"
  by (simp add: determine_defs log_wrapper_def master_program_def try_server_def result_log_defs)

section \<open>Outcome reduction\<close>

text \<open>
  What the reduction does once the main server was attempted. It does not raise: on a
  test run each of the six combinations produces a sentence of its own, with the test
  wording, and returns it; on any other run nothing is returned, the combinations
  (succeeded, not attempted), (failed, succeeded), (failed, failed) and (failed, not
  attempted) leave their sentence in the log, and (succeeded, succeeded) and (succeeded,
  failed), which the orchestrator does not produce on such a run, leave none.
\<close>

lemma outcome_reduction_for_attempted_main:
  "generate_result_log (cfg\<lparr>test := True\<rparr>) (Some True) (Some True)
     = Inr \<lparr>returned = Some (AllServersSucceeded, True), logged = Some (AllServersSucceeded, True)\<rparr>
   \<and> generate_result_log (cfg\<lparr>test := True\<rparr>) (Some True) (Some False)
     = Inr \<lparr>returned = Some (MainOkBackupFailed, True), logged = Some (MainOkBackupFailed, True)\<rparr>
   \<and> generate_result_log (cfg\<lparr>test := True\<rparr>) (Some True) None
     = Inr \<lparr>returned = Some (MainOkBackupNotStarted, True),
            logged = Some (MainOkBackupNotStarted, True)\<rparr>
   \<and> generate_result_log (cfg\<lparr>test := True\<rparr>) (Some False) (Some True)
     = Inr \<lparr>returned = Some (BackupOkMainFailed, True), logged = Some (BackupOkMainFailed, True)\<rparr>
   \<and> generate_result_log (cfg\<lparr>test := True\<rparr>) (Some False) (Some False)
     = Inr \<lparr>returned = Some (AllServersFailed, True), logged = Some (AllServersFailed, True)\<rparr>
   \<and> generate_result_log (cfg\<lparr>test := True\<rparr>) (Some False) None
     = Inr \<lparr>returned = Some (MainFailedBackupNotStarted, True),
            logged = Some (MainFailedBackupNotStarted, True)\<rparr>
   \<and> generate_result_log (cfg\<lparr>test := False\<rparr>) (Some True) (Some True)
     = Inr \<lparr>returned = None, logged = None\<rparr>
   \<and> generate_result_log (cfg\<lparr>test := False\<rparr>) (Some True) (Some False)
     = Inr \<lparr>returned = None, logged = None\<rparr>
   \<and> generate_result_log (cfg\<lparr>test := False\<rparr>) (Some True) None
     = Inr \<lparr>returned = None, logged = Some (MainOk, False)\<rparr>
   \<and> generate_result_log (cfg\<lparr>test := False\<rparr>) (Some False) (Some True)
     = Inr \<lparr>returned = None, logged = Some (BackupOkMainFailed, False)\<rparr>
   \<and> generate_result_log (cfg\<lparr>test := False\<rparr>) (Some False) (Some False)
     = Inr \<lparr>returned = None, logged = Some (AllServersFailed, False)\<rparr>
   \<and> generate_result_log (cfg\<lparr>test := False\<rparr>) (Some False) None
     = Inr \<lparr>returned = None, logged = Some (MainFailedBackupNotStarted, False)\<rparr>"
  by (simp add: result_log_defs log_wrapper_def)


section \<open>The backup server after an attempt on the main server\<close>

text \<open>
  When the attempt on the main server returns an outcome \<open>b\<close>, the orchestrator goes on
  as the selection policy says: it attempts the backup server, once, with the call of
  \<open>_send_to_smtp\<close> on slot 1, exactly when that server is enabled and the run is a test or
  the main attempt failed.
\<close>

lemma backup_after_main_attempt:
  assumes m: "main cfg"
      and p: "send_to_smtp cfg (w 0) 0 MainServer msg_type title text img userid = (t, Inr (b, l))"
      and q: "send_to_smtp cfg (w 1) 1 BackupServer msg_type title text img userid = (t', r')"
  shows "fst (master_program cfg w title text msg_type userid img)
     = \<lparr>slot = 0, events = t, outcome = Some l\<rparr>
       # (if secondary cfg \<and> (test cfg \<or> \<not> b)
          then [\<lparr>slot = 1, events = t',
                  outcome = (case r' of Inl e \<Rightarrow> None | Inr (b', l') \<Rightarrow> Some l')\<rparr>]
          else [])"
  using m p q
  by (cases r')
     (auto simp add: master_program_def try_server_def determine_defs log_wrapper_def
        result_log_defs split: sum.splits option.splits bool.splits)

text \<open>
  C5. The claim expects the backup server to be attempted exactly once whenever the
  attempt on the main server failed and the backup server is enabled. The attempt on
  the main server can also fail without returning: when a stage fails after the session
  was opened, the handler of line 1607 calls \<open>server.quit()\<close>, and an exception of that
  call is caught nowhere. With both servers enabled, a main server that drops the
  session during \<open>sendmail\<close> and a \<open>quit\<close> that then raises, the orchestrator makes the
  one attempt on slot 0, none on slot 1, and ends with the exception.
\<close>

theorem backup_skipped_when_quit_raises:
  "main two_servers \<and> secondary two_servers
   \<and> master_program two_servers (\<lambda>k. dropping_world) (Some ''Download complete'') None MtNone
        None ImgNone
     = ([\<lparr>slot = 0,
          events = [EvConnect True (Some ''smtp.example.org'') (Some ''465''),
            EvEhlo (Some ''smtp.example.org''), EvLogin (Some ''bot@example.org'') (Some ''secret''),
            EvMimeMultipart, EvReadTemplate False,
            EvSendMail (Some ''bot@example.org'') (ReceiverSelf (Some ''bot@example.org''))
              \<lparr>hdr_subject = Some (Txt ''Download complete''),
               hdr_from = Some (Some ''bot@example.org'', Some ''bot@example.org''),
               payload = [MultipartAlternative [''<p>notice</p>'']]\<rparr>,
            EvQuit],
          outcome = None\<rparr>],
        Inl (ModuleFailed (Uncaught SMTPServerDisconnected)))"
  by (simp add: master_program_def try_server_def determine_defs stage_defs get_dict_value_main
      io_defs fixture_defs)

section \<open>Message types outside the enumeration\<close>

lemma validation_other_off:
  "\<not> test cfg \<Longrightarrow> \<not> other_msgtypes cfg \<Longrightarrow>
   msg_parameter_validation cfg st (MtOther s) title text img userid
     = Inl (ModuleFailed (ValidationFailed UnsupportedMsgType))"
  by (simp add: msg_parameter_validation_def msg_parameter_validation_body_def log_wrapper_def)

lemma validation_other_on:
  "\<not> test cfg \<Longrightarrow> other_msgtypes cfg \<Longrightarrow>
   \<exists>ti te im u. msg_parameter_validation cfg st (MtOther s) title text img userid
     = Inr (ti, te, im, u, Txt s)"
  by (simp add: msg_parameter_validation_def msg_parameter_validation_body_def log_wrapper_def
      Let_def)

text \<open>An event without a type is not such a case: the type defaults to the empty
  label, whatever the switch.\<close>

lemma validation_absent_type:
  "\<not> test cfg \<Longrightarrow>
   \<exists>ti te im u. msg_parameter_validation cfg st MtNone title text img userid
     = Inr (ti, te, im, u, Txt [])"
  by (simp add: msg_parameter_validation_def msg_parameter_validation_body_def log_wrapper_def
      Let_def)

text \<open>An attempt whose parameters are invalid ends before any call to the outside.\<close>

lemma send_invalid:
  "msg_parameter_validation cfg st mt title text img userid = Inl e \<Longrightarrow>
   send_to_smtp cfg w sv st mt title text img userid
     = ([], Inr (False, ErrorOccurred (if sv = 0 \<or> sv = 1 then e else InvalidSmtpServerType)))"
  by (simp add: send_to_smtp_def send_to_smtp_body_def io_defs)

lemma master_invalid:
  assumes "\<And>st. msg_parameter_validation cfg st mt title text img userid = Inl e"
  shows "concat (map events (fst (master_program cfg w title text mt userid img))) = []"
  using assms
  by (auto simp add: master_program_def try_server_def determine_defs log_wrapper_def send_invalid
      result_log_defs split: sum.splits option.splits prod.splits if_splits)

text \<open>
  C7, as stated, fails for an event without a type, which is not a member of the
  enumeration either: on a run that is not a test and with the switch for other types
  off, the validation accepts it with the empty label (line 1629), and the attempt goes
  on to connect, build and send.
\<close>

theorem absent_type_counterexample:
  "\<not> test two_servers \<and> \<not> other_msgtypes two_servers
   \<and> msg_parameter_validation two_servers MainServer MtNone (Some ''Download complete'') None
        ImgNone None
     = Inr (Txt ''Download complete'', Txt [], ImgStr [], Txt [], Txt [])
   \<and> send_to_smtp two_servers accepting_world 0 MainServer MtNone (Some ''Download complete'') None
        ImgNone None
     = ([EvConnect True (Some ''smtp.example.org'') (Some ''465''),
         EvEhlo (Some ''smtp.example.org''), EvLogin (Some ''bot@example.org'') (Some ''secret''),
         EvMimeMultipart, EvReadTemplate False,
         EvSendMail (Some ''bot@example.org'') (ReceiverSelf (Some ''bot@example.org''))
           \<lparr>hdr_subject = Some (Txt ''Download complete''),
            hdr_from = Some (Some ''bot@example.org'', Some ''bot@example.org''),
            payload = [MultipartAlternative [''<p>notice</p>'']]\<rparr>],
        Inr (True, MailSent))"
  by (simp add: stage_defs get_dict_value_main io_defs fixture_defs)

text \<open>
  C7, amended. On a run that is not a test, for a message type that is present and is
  not a member of the enumeration: with the switch for other types off, the validation
  fails with the message that the type is not supported, an attempt on either slot ends
  as a failure with that error and an empty trace, and a whole dispatch leaves no event
  in any attempt; with the switch on, the validation returns the type unchanged and an
  attempt on either slot goes on to open the connection of its slot. An absent type is
  not rejected: whatever the switch, the validation gives it the empty label and an
  attempt on either slot goes on to open the connection of its slot.
\<close>

theorem unrecognized_type_gate:
  "msg_parameter_validation (cfg\<lparr>test := False, other_msgtypes := False\<rparr>) st (MtOther s)
       title text img userid
     = Inl (ModuleFailed (ValidationFailed UnsupportedMsgType))
   \<and> send_to_smtp (cfg\<lparr>test := False, other_msgtypes := False\<rparr>) w 0 MainServer (MtOther s)
       title text img userid
     = ([], Inr (False, ErrorOccurred (ModuleFailed (ValidationFailed UnsupportedMsgType))))
   \<and> send_to_smtp (cfg\<lparr>test := False, other_msgtypes := False\<rparr>) w 1 BackupServer (MtOther s)
       title text img userid
     = ([], Inr (False, ErrorOccurred (ModuleFailed (ValidationFailed UnsupportedMsgType))))
   \<and> concat (map events (fst (master_program (cfg\<lparr>test := False, other_msgtypes := False\<rparr>) ws
         title text (MtOther s) userid img))) = []
   \<and> (\<exists>ti te im u. msg_parameter_validation (cfg\<lparr>test := False, other_msgtypes := True\<rparr>) st
          (MtOther s) title text img userid = Inr (ti, te, im, u, Txt s))
   \<and> (\<exists>t r. send_to_smtp (cfg\<lparr>test := False, other_msgtypes := True\<rparr>) w 0 MainServer (MtOther s)
          title text img userid
        = (EvConnect (main_smtp_encryption cfg = Some ''ssl'') (main_smtp_host cfg)
             (main_smtp_port cfg) # t, r))
   \<and> (\<exists>t r. send_to_smtp (cfg\<lparr>test := False, other_msgtypes := True\<rparr>) w 1 BackupServer (MtOther s)
          title text img userid
        = (EvConnect (secondary_smtp_encryption cfg = Some ''ssl'') (secondary_smtp_host cfg)
             (secondary_smtp_port cfg) # t, r))
   \<and> (\<exists>ti te im u. msg_parameter_validation (cfg\<lparr>test := False\<rparr>) st MtNone
          title text img userid = Inr (ti, te, im, u, Txt []))
   \<and> (\<exists>t r. send_to_smtp (cfg\<lparr>test := False\<rparr>) w 0 MainServer MtNone title text img userid
        = (EvConnect (main_smtp_encryption cfg = Some ''ssl'') (main_smtp_host cfg)
             (main_smtp_port cfg) # t, r))
   \<and> (\<exists>t r. send_to_smtp (cfg\<lparr>test := False\<rparr>) w 1 BackupServer MtNone title text img userid
        = (EvConnect (secondary_smtp_encryption cfg = Some ''ssl'') (secondary_smtp_host cfg)
             (secondary_smtp_port cfg) # t, r))"
proof -
  let ?off = "cfg\<lparr>test := False, other_msgtypes := False\<rparr>"
  let ?on = "cfg\<lparr>test := False, other_msgtypes := True\<rparr>"
  let ?any = "cfg\<lparr>test := False\<rparr>"
  have off: "msg_parameter_validation ?off st' (MtOther s) title text img userid
     = Inl (ModuleFailed (ValidationFailed UnsupportedMsgType))" for st'
    by (rule validation_other_off) simp_all
  have on: "\<exists>ti te im u. msg_parameter_validation ?on st' (MtOther s) title text img userid
     = Inr (ti, te, im, u, Txt s)" for st'
    by (rule validation_other_on) simp_all
  have absent: "\<exists>ti te im u. msg_parameter_validation ?any st' MtNone title text img userid
     = Inr (ti, te, im, u, Txt [])" for st'
    by (rule validation_absent_type) simp
  have a: "send_to_smtp ?off w 0 MainServer (MtOther s) title text img userid
     = ([], Inr (False, ErrorOccurred (ModuleFailed (ValidationFailed UnsupportedMsgType))))"
    using send_invalid [OF off, of w 0 MainServer] by simp
  have b: "send_to_smtp ?off w 1 BackupServer (MtOther s) title text img userid
     = ([], Inr (False, ErrorOccurred (ModuleFailed (ValidationFailed UnsupportedMsgType))))"
    using send_invalid [OF off, of w 1 BackupServer] by simp
  have c: "concat (map events (fst (master_program ?off ws title text (MtOther s) userid img))) = []"
    by (rule master_invalid) (rule off)
  obtain v0 where v0: "msg_parameter_validation ?on MainServer (MtOther s) title text img userid = Inr v0"
    using on [of MainServer] by blast
  obtain v1 where v1: "msg_parameter_validation ?on BackupServer (MtOther s) title text img userid = Inr v1"
    using on [of BackupServer] by blast
  obtain n0 where n0: "msg_parameter_validation ?any MainServer MtNone title text img userid = Inr n0"
    using absent [of MainServer] by blast
  obtain n1 where n1: "msg_parameter_validation ?any BackupServer MtNone title text img userid = Inr n1"
    using absent [of BackupServer] by blast
  have d: "\<exists>t r. send_to_smtp ?on w 0 MainServer (MtOther s) title text img userid
        = (EvConnect (main_smtp_encryption cfg = Some ''ssl'') (main_smtp_host cfg)
             (main_smtp_port cfg) # t, r)"
    using send_after_validation [OF v0, of 0 _ w] by (simp add: get_dict_value_main)
  have e: "\<exists>t r. send_to_smtp ?on w 1 BackupServer (MtOther s) title text img userid
        = (EvConnect (secondary_smtp_encryption cfg = Some ''ssl'') (secondary_smtp_host cfg)
             (secondary_smtp_port cfg) # t, r)"
    using send_after_validation [OF v1, of 1 _ w] by (simp add: get_dict_value_secondary)
  have f: "\<exists>t r. send_to_smtp ?any w 0 MainServer MtNone title text img userid
        = (EvConnect (main_smtp_encryption cfg = Some ''ssl'') (main_smtp_host cfg)
             (main_smtp_port cfg) # t, r)"
    using send_after_validation [OF n0, of 0 _ w] by (simp add: get_dict_value_main)
  have g: "\<exists>t r. send_to_smtp ?any w 1 BackupServer MtNone title text img userid
        = (EvConnect (secondary_smtp_encryption cfg = Some ''ssl'') (secondary_smtp_host cfg)
             (secondary_smtp_port cfg) # t, r)"
    using send_after_validation [OF n1, of 1 _ w] by (simp add: get_dict_value_secondary)
  show ?thesis
    using off [of st] on [of st] absent [of st] a b c d e f g by blast
qed

section \<open>The transport connection\<close>

lemma connect_plain:
  assumes "encryption s \<noteq> Some ''ssl''" "encryption s \<noteq> Some ''tls''"
  shows "prefix (fst (connect_to_smtp_server w s))
           [EvConnect False (host s) (port s), EvEhlo (host s), EvLogin (sender_mail s) (password s)]
     \<and> (snd (connect_to_smtp_server w s) = Inr () \<longrightarrow> fst (connect_to_smtp_server w s)
           = [EvConnect False (host s) (port s), EvEhlo (host s),
              EvLogin (sender_mail s) (password s)])"
  using assms
  by (auto simp add: connect_to_smtp_server_def connect_to_smtp_server_body_def io_defs
      split: option.splits)

lemma connect_tls:
  assumes "encryption s = Some ''tls''"
  shows "prefix (fst (connect_to_smtp_server w s))
           [EvConnect False (host s) (port s), EvStartTLS, EvEhlo (host s),
            EvLogin (sender_mail s) (password s)]
     \<and> (snd (connect_to_smtp_server w s) = Inr () \<longrightarrow> fst (connect_to_smtp_server w s)
           = [EvConnect False (host s) (port s), EvStartTLS, EvEhlo (host s),
              EvLogin (sender_mail s) (password s)])"
  using assms
  by (auto simp add: connect_to_smtp_server_def connect_to_smtp_server_body_def io_defs
      split: option.splits)

lemma connect_ssl:
  assumes "encryption s = Some ''ssl''"
  shows "prefix (fst (connect_to_smtp_server w s))
           [EvConnect True (host s) (port s), EvEhlo (host s), EvLogin (sender_mail s) (password s)]
     \<and> (snd (connect_to_smtp_server w s) = Inr () \<longrightarrow> fst (connect_to_smtp_server w s)
           = [EvConnect True (host s) (port s), EvEhlo (host s),
              EvLogin (sender_mail s) (password s)])"
  using assms
  by (auto simp add: connect_to_smtp_server_def connect_to_smtp_server_body_def io_defs
      split: option.splits)

lemma connect_no_mime: "EvMimeMultipart \<notin> set (fst (connect_to_smtp_server w s))"
  by (auto simp add: connect_to_smtp_server_def connect_to_smtp_server_body_def io_defs
      split: option.splits)

lemma build_starts: "\<exists>rest r. build_and_send cfg w s st v = (EvMimeMultipart # rest, r)"
  by (cases v)
     (auto simp add: build_and_send_def get_receiver_and_sender_def get_receiver_and_sender_body_def
        msg_build_email_def io_defs Let_def split: prod.splits sum.splits)

text \<open>A message object is created only after the whole connection, login included, has
  succeeded, and then as the very next step.\<close>

lemma mime_after_login:
  assumes "EvMimeMultipart \<in> set (fst (send_to_smtp cfg w sv st mt title text img userid))"
  shows "\<exists>s rest. get_dict_value cfg st (if sv = 0 then ''main'' else ''secondary'') = Inr s
           \<and> snd (connect_to_smtp_server w s) = Inr ()
           \<and> fst (send_to_smtp cfg w sv st mt title text img userid)
               = fst (connect_to_smtp_server w s) @ EvMimeMultipart # rest"
proof -
  from assms have sv: "sv = 0 \<or> sv = 1"
    by (auto simp add: send_to_smtp_def send_to_smtp_body_def io_defs split: if_splits)
  from assms sv obtain v where v: "msg_parameter_validation cfg st mt title text img userid = Inr v"
    by (cases "msg_parameter_validation cfg st mt title text img userid")
       (auto simp add: send_to_smtp_def send_to_smtp_body_def io_defs)
  obtain s where s: "get_dict_value cfg st (if sv = 0 then ''main'' else ''secondary'') = Inr s"
    using sv by (auto simp add: get_dict_value_main get_dict_value_secondary)
  obtain t r where c: "connect_to_smtp_server w s = (t, r)"
    by (cases "connect_to_smtp_server w s") auto
  have nm: "EvMimeMultipart \<notin> set t"
    using connect_no_mime [of w s] c by simp
  obtain rest r' where b: "build_and_send cfg w s st v = (EvMimeMultipart # rest, r')"
    using build_starts by blast
  have ok: "r = Inr ()"
    using assms sv v s c nm
    by (cases r) (auto simp add: send_to_smtp_def send_to_smtp_body_def io_defs Let_def)
  have "\<exists>rest'. fst (send_to_smtp cfg w sv st mt title text img userid) = t @ EvMimeMultipart # rest'"
    using sv v s c b ok
    by (cases r'; cases "smtp_quit w")
       (auto simp add: send_to_smtp_def send_to_smtp_body_def io_defs Let_def)
  then show ?thesis
    using s c ok by auto
qed

text \<open>
  C8. The calls that open a session follow the configured encryption: without encryption
  a plaintext connection, the greeting and the login; with \<open>tls\<close> a plaintext connection,
  STARTTLS, the greeting and the login; with \<open>ssl\<close> a connection with implicit TLS, the
  greeting and the login. Whatever fails, the calls made are an initial part of that
  sequence, and a session that was opened made all of them. In an attempt, a message
  object is created only when the session was opened, directly after the login with the
  sender address and the credential.
\<close>

theorem transport_follows_encryption:
  "(encryption s = Some ''not_encrypted'' \<longrightarrow>
      prefix (fst (connect_to_smtp_server w s))
        [EvConnect False (host s) (port s), EvEhlo (host s), EvLogin (sender_mail s) (password s)]
      \<and> (snd (connect_to_smtp_server w s) = Inr () \<longrightarrow> fst (connect_to_smtp_server w s)
           = [EvConnect False (host s) (port s), EvEhlo (host s),
              EvLogin (sender_mail s) (password s)]))
   \<and> (encryption s = Some ''tls'' \<longrightarrow>
      prefix (fst (connect_to_smtp_server w s))
        [EvConnect False (host s) (port s), EvStartTLS, EvEhlo (host s),
         EvLogin (sender_mail s) (password s)]
      \<and> (snd (connect_to_smtp_server w s) = Inr () \<longrightarrow> fst (connect_to_smtp_server w s)
           = [EvConnect False (host s) (port s), EvStartTLS, EvEhlo (host s),
              EvLogin (sender_mail s) (password s)]))
   \<and> (encryption s = Some ''ssl'' \<longrightarrow>
      prefix (fst (connect_to_smtp_server w s))
        [EvConnect True (host s) (port s), EvEhlo (host s), EvLogin (sender_mail s) (password s)]
      \<and> (snd (connect_to_smtp_server w s) = Inr () \<longrightarrow> fst (connect_to_smtp_server w s)
           = [EvConnect True (host s) (port s), EvEhlo (host s),
              EvLogin (sender_mail s) (password s)]))
   \<and> (EvMimeMultipart \<in> set (fst (send_to_smtp cfg w sv st mt title text img userid)) \<longrightarrow>
        (\<exists>s' rest. get_dict_value cfg st (if sv = 0 then ''main'' else ''secondary'') = Inr s'
           \<and> snd (connect_to_smtp_server w s') = Inr ()
           \<and> fst (send_to_smtp cfg w sv st mt title text img userid)
               = fst (connect_to_smtp_server w s') @ EvMimeMultipart # rest))"
proof -
  have 1: "encryption s = Some ''not_encrypted'' \<longrightarrow>
      prefix (fst (connect_to_smtp_server w s))
        [EvConnect False (host s) (port s), EvEhlo (host s), EvLogin (sender_mail s) (password s)]
      \<and> (snd (connect_to_smtp_server w s) = Inr () \<longrightarrow> fst (connect_to_smtp_server w s)
           = [EvConnect False (host s) (port s), EvEhlo (host s),
              EvLogin (sender_mail s) (password s)])"
    using connect_plain [of s w] by simp
  have 2: "encryption s = Some ''tls'' \<longrightarrow>
      prefix (fst (connect_to_smtp_server w s))
        [EvConnect False (host s) (port s), EvStartTLS, EvEhlo (host s),
         EvLogin (sender_mail s) (password s)]
      \<and> (snd (connect_to_smtp_server w s) = Inr () \<longrightarrow> fst (connect_to_smtp_server w s)
           = [EvConnect False (host s) (port s), EvStartTLS, EvEhlo (host s),
              EvLogin (sender_mail s) (password s)])"
    using connect_tls [of s w] by simp
  have 3: "encryption s = Some ''ssl'' \<longrightarrow>
      prefix (fst (connect_to_smtp_server w s))
        [EvConnect True (host s) (port s), EvEhlo (host s), EvLogin (sender_mail s) (password s)]
      \<and> (snd (connect_to_smtp_server w s) = Inr () \<longrightarrow> fst (connect_to_smtp_server w s)
           = [EvConnect True (host s) (port s), EvEhlo (host s),
              EvLogin (sender_mail s) (password s)])"
    using connect_ssl [of s w] by simp
  have 4: "EvMimeMultipart \<in> set (fst (send_to_smtp cfg w sv st mt title text img userid)) \<longrightarrow>
        (\<exists>s' rest. get_dict_value cfg st (if sv = 0 then ''main'' else ''secondary'') = Inr s'
           \<and> snd (connect_to_smtp_server w s') = Inr ()
           \<and> fst (send_to_smtp cfg w sv st mt title text img userid)
               = fst (connect_to_smtp_server w s') @ EvMimeMultipart # rest)"
    using mime_after_login by blast
  from 1 2 3 4 show ?thesis by blast
qed

theorem transport_follows_encryption_witness:
  "fst (connect_to_smtp_server accepting_world plain_slot)
     = [EvConnect False (Some ''relay.example.com'') (Some ''25''),
        EvEhlo (Some ''relay.example.com''), EvLogin (Some ''bot@example.com'') (Some ''secret'')]
   \<and> fst (connect_to_smtp_server accepting_world backup_slot)
     = [EvConnect False (Some ''mail.example.net'') (Some ''587''), EvStartTLS,
        EvEhlo (Some ''mail.example.net''), EvLogin (Some ''bot@example.net'') (Some ''secret'')]
   \<and> fst (connect_to_smtp_server accepting_world main_slot)
     = [EvConnect True (Some ''smtp.example.org'') (Some ''465''),
        EvEhlo (Some ''smtp.example.org''), EvLogin (Some ''bot@example.org'') (Some ''secret'')]
   \<and> (\<exists>rest. fst (send_to_smtp two_servers accepting_world 0 MainServer MtNone
          (Some ''Download complete'') None ImgNone None)
        = [EvConnect True (Some ''smtp.example.org'') (Some ''465''),
           EvEhlo (Some ''smtp.example.org''), EvLogin (Some ''bot@example.org'') (Some ''secret'')]
          @ EvMimeMultipart # rest)"
proof -
  have e1: "encryption plain_slot = Some ''not_encrypted''"
    and e2: "encryption backup_slot = Some ''tls''"
    and e3: "encryption main_slot = Some ''ssl''"
    by (simp_all add: fixture_defs)
  have o1: "snd (connect_to_smtp_server accepting_world plain_slot) = Inr ()"
    and o2: "snd (connect_to_smtp_server accepting_world backup_slot) = Inr ()"
    and o3: "snd (connect_to_smtp_server accepting_world main_slot) = Inr ()"
    by (simp_all add: connect_to_smtp_server_def connect_to_smtp_server_body_def io_defs
        fixture_defs)
  have g: "get_dict_value two_servers MainServer ''main'' = Inr main_slot"
    by (simp add: get_dict_value_main fixture_defs)
  have m: "EvMimeMultipart \<in> set (fst (send_to_smtp two_servers accepting_world 0 MainServer MtNone
          (Some ''Download complete'') None ImgNone None))"
    by (simp add: stage_defs get_dict_value_main io_defs fixture_defs)
  have a: "fst (connect_to_smtp_server accepting_world plain_slot)
     = [EvConnect False (Some ''relay.example.com'') (Some ''25''),
        EvEhlo (Some ''relay.example.com''), EvLogin (Some ''bot@example.com'') (Some ''secret'')]"
    using transport_follows_encryption [of plain_slot accepting_world] e1 o1
    by (simp add: fixture_defs)
  have b: "fst (connect_to_smtp_server accepting_world backup_slot)
     = [EvConnect False (Some ''mail.example.net'') (Some ''587''), EvStartTLS,
        EvEhlo (Some ''mail.example.net''), EvLogin (Some ''bot@example.net'') (Some ''secret'')]"
    using transport_follows_encryption [of backup_slot accepting_world] e2 o2
    by (simp add: fixture_defs)
  have c: "fst (connect_to_smtp_server accepting_world main_slot)
     = [EvConnect True (Some ''smtp.example.org'') (Some ''465''),
        EvEhlo (Some ''smtp.example.org''), EvLogin (Some ''bot@example.org'') (Some ''secret'')]"
    using transport_follows_encryption [of main_slot accepting_world] e3 o3
    by (simp add: fixture_defs)
  have d: "\<exists>rest. fst (send_to_smtp two_servers accepting_world 0 MainServer MtNone
          (Some ''Download complete'') None ImgNone None)
        = fst (connect_to_smtp_server accepting_world main_slot) @ EvMimeMultipart # rest"
    using transport_follows_encryption [of main_slot accepting_world two_servers 0 MainServer MtNone
        "Some ''Download complete''" None ImgNone None] m g
    by auto
  from a b c d show ?thesis by simp
qed

section \<open>Failures of the image embedding\<close>

lemma embed_off: "\<not> send_image cfg \<Longrightarrow> embed_image cfg w img m = ([], m, ImageSendOff)"
  by (simp add: embed_image_def)

lemma embed_no_image:
  "send_image cfg \<Longrightarrow> \<not> image_truthy img \<Longrightarrow> embed_image cfg w img m = ([], m, NoImageGiven)"
  by (simp add: embed_image_def)

text \<open>With an image to embed, the step ends in success or in a skipped embedding that
  leaves the message as it was.\<close>

lemma embed_attempted:
  assumes "send_image cfg" "image_truthy img"
  shows "(\<exists>t m'. embed_image cfg w img m = (t, m', EmbedOk))
       \<or> (\<exists>t e. embed_image cfg w img m = (t, m, EmbedSkipped e))"
proof -
  obtain t r where a: "io_bind (acquire_image w img)
      (\<lambda>image_data. ([], add_header_and_attach m image_data)) = (t, r)"
    by (cases "io_bind (acquire_image w img)
      (\<lambda>image_data. ([], add_header_and_attach m image_data))") auto
  show ?thesis
  proof (cases r)
    case (Inr m')
    with a assms show ?thesis by (simp add: embed_image_def)
  next
    case (Inl e)
    show ?thesis
    proof (cases "e = ImgRaised TypeError")
      case True
      with a Inl assms show ?thesis by (simp add: embed_image_def)
    next
      case False
      with a Inl assms have "embed_image cfg w img m = (t, m, EmbedSkipped e)"
        by (cases e) (auto simp add: embed_image_def split: py_exn.splits)
      then show ?thesis by blast
    qed
  qed
qed

text \<open>A failure while the image is fetched, read, decoded or classified ends in a
  skipped embedding.\<close>

lemma acquire_fails:
  assumes "send_image cfg" "image_truthy img" "snd (acquire_image w img) = Inl e"
  shows "\<exists>e'. embed_image cfg w img m = (fst (acquire_image w img), m, EmbedSkipped e')"
proof -
  obtain t where a: "acquire_image w img = (t, Inl e)"
    using assms(3) by (cases "acquire_image w img") auto
  show ?thesis
  proof (cases "e = ImgRaised TypeError")
    case True
    with a assms show ?thesis by (simp add: embed_image_def io_bind_def)
  next
    case False
    with a assms have "embed_image cfg w img m = (t, m, EmbedSkipped e)"
      by (cases e) (auto simp add: embed_image_def io_bind_def split: py_exn.splits)
    with a show ?thesis by simp
  qed
qed

text \<open>The log entry of the step does not depend on the message it is given.\<close>

lemma embed_log_independent:
  "snd (snd (embed_image cfg w img m)) = snd (snd (embed_image cfg w img m'))"
proof -
  obtain t r where a: "acquire_image w img = (t, r)"
    by (cases "acquire_image w img") auto
  show ?thesis
  proof (cases r)
    case (Inl e)
    with a show ?thesis
      by (cases "e = ImgRaised TypeError"; cases e)
         (auto simp add: embed_image_def io_bind_def split: py_exn.splits)
  next
    case (Inr d)
    with a show ?thesis
      by (cases d) (auto simp add: embed_image_def io_bind_def add_header_and_attach_def)
  qed
qed

lemma body_without_image:
  assumes l: "snd (snd (embed_image cfg w img m)) \<noteq> EmbedOk"
      and h: "new_mime_text w html = None"
  shows "snd (msg_build_email_body cfg w m0 img html)
           = Inr (m0\<lparr>payload := payload m0 @ [MultipartAlternative [html]]\<rparr>)"
proof -
  let ?m1 = "m0\<lparr>payload := payload m0 @ [MultipartAlternative []]\<rparr>"
  obtain t m2 l2 where e: "embed_image cfg w img ?m1 = (t, m2, l2)"
    by (cases "embed_image cfg w img ?m1") auto
  have "l2 \<noteq> EmbedOk"
    using l e embed_log_independent [of cfg w img m ?m1] by simp
  then have "m2 = ?m1"
    using e embed_off [of cfg w img ?m1] embed_no_image [of cfg img w ?m1]
      embed_attempted [of cfg img w ?m1]
    by (cases "send_image cfg"; cases "image_truthy img") auto
  with e h show ?thesis
    by (simp add: msg_build_email_body_def msg_build_email_body_body_def io_defs Let_def)
qed

text \<open>
  C9. Let the embedding step return the message \<open>message'\<close> and the log entry \<open>l\<close>. Unless
  the image was embedded, the message is unchanged. With image sending enabled and an
  image supplied, every end other than success is a warning; in particular every
  failure to fetch, read, decode or recognise the image is a warning with the message
  unchanged. With image sending disabled, and with no image supplied, the step makes no
  call, leaves the message unchanged, and its log entry is not a warning. After a step
  that did not embed the image the body is built all the same: the result is the
  message with the HTML part and no image part, not an exception.
\<close>

theorem embedding_failure_is_a_warning:
  assumes e: "embed_image cfg w img message = (t, message', l)"
  shows "(l = EmbedOk \<or> message' = message)
     \<and> (send_image cfg \<and> image_truthy img \<and> l \<noteq> EmbedOk \<longrightarrow> is_warning l)
     \<and> (send_image cfg \<and> image_truthy img \<and> snd (acquire_image w img) = Inl err
           \<longrightarrow> is_warning l \<and> message' = message)
     \<and> (\<not> send_image cfg \<longrightarrow> l = ImageSendOff \<and> \<not> is_warning l \<and> message' = message \<and> t = [])
     \<and> (send_image cfg \<and> \<not> image_truthy img
           \<longrightarrow> l = NoImageGiven \<and> \<not> is_warning l \<and> message' = message \<and> t = [])
     \<and> (l \<noteq> EmbedOk \<and> new_mime_text w html = None
           \<longrightarrow> snd (msg_build_email_body cfg w message img html)
                 = Inr (message\<lparr>payload := payload message @ [MultipartAlternative [html]]\<rparr>))"
proof -
  have 1: "l = EmbedOk \<or> message' = message"
    using e embed_off [of cfg w img message] embed_no_image [of cfg img w message]
      embed_attempted [of cfg img w message]
    by (cases "send_image cfg"; cases "image_truthy img") auto
  have 2: "send_image cfg \<and> image_truthy img \<and> l \<noteq> EmbedOk \<longrightarrow> is_warning l"
    using e embed_attempted [of cfg img w message] by (auto simp add: is_warning_def)
  have 3: "send_image cfg \<and> image_truthy img \<and> snd (acquire_image w img) = Inl err
           \<longrightarrow> is_warning l \<and> message' = message"
    using e acquire_fails [of cfg img w err message] by (auto simp add: is_warning_def)
  have 4: "\<not> send_image cfg \<longrightarrow> l = ImageSendOff \<and> \<not> is_warning l \<and> message' = message \<and> t = []"
    using e embed_off [of cfg w img message] by (auto simp add: is_warning_def)
  have 5: "send_image cfg \<and> \<not> image_truthy img
           \<longrightarrow> l = NoImageGiven \<and> \<not> is_warning l \<and> message' = message \<and> t = []"
    using e embed_no_image [of cfg img w message] by (auto simp add: is_warning_def)
  have 6: "l \<noteq> EmbedOk \<and> new_mime_text w html = None
           \<longrightarrow> snd (msg_build_email_body cfg w message img html)
                 = Inr (message\<lparr>payload := payload message @ [MultipartAlternative [html]]\<rparr>)"
    using e body_without_image [of cfg w img message html message] by simp
  from 1 2 3 4 5 6 show ?thesis by blast
qed

theorem embedding_failure_is_a_warning_witness:
  "embed_image form_defaults accepting_world (ImgStr ''poster.jpg'') new_message
     = ([EvHttpGet ''poster.jpg''], new_message,
        EmbedSkipped (ImgFetchFailed (ImgRaised OtherException)))
   \<and> send_image form_defaults \<and> image_truthy (ImgStr ''poster.jpg'')
   \<and> snd (acquire_image accepting_world (ImgStr ''poster.jpg''))
       = Inl (ImgFetchFailed (ImgRaised OtherException))
   \<and> is_warning (EmbedSkipped (ImgFetchFailed (ImgRaised OtherException)))
   \<and> snd (msg_build_email_body form_defaults accepting_world new_message (ImgStr ''poster.jpg'')
        ''<p>Download complete</p>'')
       = Inr (new_message\<lparr>payload := [MultipartAlternative [''<p>Download complete</p>'']]\<rparr>)
   \<and> embed_image (form_defaults\<lparr>send_image := False\<rparr>) accepting_world (ImgStr ''poster.jpg'')
        new_message = ([], new_message, ImageSendOff)
   \<and> \<not> is_warning ImageSendOff
   \<and> embed_image form_defaults accepting_world ImgNone new_message = ([], new_message, NoImageGiven)
   \<and> \<not> is_warning NoImageGiven"
proof -
  let ?e = "ImgFetchFailed (ImgRaised OtherException)"
  have a: "embed_image form_defaults accepting_world (ImgStr ''poster.jpg'') new_message
     = ([EvHttpGet ''poster.jpg''], new_message, EmbedSkipped ?e)"
    by (simp add: embed_image_def acquire_image_def add_header_and_attach_def image_truthy_def
        io_defs fixture_defs)
  have b: "embed_image (form_defaults\<lparr>send_image := False\<rparr>) accepting_world (ImgStr ''poster.jpg'')
        new_message = ([], new_message, ImageSendOff)"
    by (simp add: embed_image_def fixture_defs)
  have c: "embed_image form_defaults accepting_world ImgNone new_message
     = ([], new_message, NoImageGiven)"
    by (simp add: embed_image_def image_truthy_def fixture_defs)
  have s: "send_image form_defaults" "\<not> send_image (form_defaults\<lparr>send_image := False\<rparr>)"
    and i: "image_truthy (ImgStr ''poster.jpg'')" "\<not> image_truthy ImgNone"
    and q: "snd (acquire_image accepting_world (ImgStr ''poster.jpg'')) = Inl ?e"
    and h: "new_mime_text accepting_world ''<p>Download complete</p>'' = None"
    and p: "payload new_message = []"
    by (simp_all add: acquire_image_def image_truthy_def io_defs fixture_defs new_message_def)
  have 1: "is_warning (EmbedSkipped ?e)
     \<and> snd (msg_build_email_body form_defaults accepting_world new_message (ImgStr ''poster.jpg'')
          ''<p>Download complete</p>'')
       = Inr (new_message\<lparr>payload := [MultipartAlternative [''<p>Download complete</p>'']]\<rparr>)"
    using embedding_failure_is_a_warning [OF a, of ?e "''<p>Download complete</p>''"] s i q h p
    by simp
  have 2: "\<not> is_warning ImageSendOff"
    using embedding_failure_is_a_warning [OF b] s by simp
  have 3: "\<not> is_warning NoImageGiven"
    using embedding_failure_is_a_warning [OF c] s i by simp
  from a b c s(1) i(1) q 1 2 3 show ?thesis by simp
qed

section \<open>The allow-list of message types\<close>

text \<open>
  C10. For an event that reaches the filter (plugin enabled, no channel, a title or a
  text): when its type is a member of the enumeration, the allow-list is not empty and
  the name of the type is not in it, the handler returns without a dispatch if the
  switch for other types is off, and dispatches the event if the switch is on; when the
  type is absent or the allow-list is empty, the event is dispatched.
\<close>

theorem allow_list_filter:
  assumes e: "enabled cfg"
      and c: "\<not> str_truthy (ed_channel ed)"
      and t: "str_truthy (ed_title ed) \<or> str_truthy (ed_text ed)"
  shows "(ed_type ed = MtEnum nt \<and> msgtypes cfg \<noteq> [] \<and> nt_name nt \<notin> set (msgtypes cfg)
            \<and> \<not> other_msgtypes cfg
          \<longrightarrow> send cfg w (Some ed) = Skipped TypeNotEnabled)
     \<and> (ed_type ed = MtEnum nt \<and> msgtypes cfg \<noteq> [] \<and> nt_name nt \<notin> set (msgtypes cfg)
            \<and> other_msgtypes cfg
          \<longrightarrow> send cfg w (Some ed) = Dispatched (master_program cfg w (ed_title ed) (ed_text ed)
                 (ed_type ed) (ed_userid ed) (ed_image ed)))
     \<and> (ed_type ed = MtNone \<or> msgtypes cfg = []
          \<longrightarrow> send cfg w (Some ed) = Dispatched (master_program cfg w (ed_title ed) (ed_text ed)
                 (ed_type ed) (ed_userid ed) (ed_image ed)))"
  using e c t
  by (auto simp add: send_def msg_type_truthy_def type_name_def)

theorem allow_list_filter_witness:
  "enabled (two_servers\<lparr>msgtypes := [''Plugin'']\<rparr>)
   \<and> \<not> str_truthy (ed_channel manual_notice)
   \<and> str_truthy (ed_title manual_notice)
   \<and> ed_type manual_notice = MtEnum \<lparr>nt_name = ''Manual'', nt_value = ''manual''\<rparr>
   \<and> ''Manual'' \<notin> set [''Plugin'']
   \<and> send (two_servers\<lparr>msgtypes := [''Plugin'']\<rparr>) (\<lambda>k. accepting_world) (Some manual_notice)
       = Skipped TypeNotEnabled
   \<and> send (two_servers\<lparr>msgtypes := [''Plugin''], other_msgtypes := True\<rparr>) (\<lambda>k. accepting_world)
         (Some manual_notice)
       = Dispatched (master_program (two_servers\<lparr>msgtypes := [''Plugin''], other_msgtypes := True\<rparr>)
           (\<lambda>k. accepting_world) (Some ''Download complete'') None
           (MtEnum \<lparr>nt_name = ''Manual'', nt_value = ''manual''\<rparr>) None ImgNone)
   \<and> send two_servers (\<lambda>k. accepting_world) (Some manual_notice)
       = Dispatched (master_program two_servers (\<lambda>k. accepting_world) (Some ''Download complete'')
           None (MtEnum \<lparr>nt_name = ''Manual'', nt_value = ''manual''\<rparr>) None ImgNone)"
proof -
  let ?off = "two_servers\<lparr>msgtypes := [''Plugin'']\<rparr>"
  let ?on = "two_servers\<lparr>msgtypes := [''Plugin''], other_msgtypes := True\<rparr>"
  let ?nt = "\<lparr>nt_name = ''Manual'', nt_value = ''manual''\<rparr>"
  have e: "enabled ?off" "enabled ?on" "enabled two_servers"
    by (simp_all add: fixture_defs)
  have c: "\<not> str_truthy (ed_channel manual_notice)"
    by (simp add: fixture_defs str_truthy_def)
  have t: "str_truthy (ed_title manual_notice) \<or> str_truthy (ed_text manual_notice)"
    and t': "str_truthy (ed_title manual_notice)"
    by (simp_all add: fixture_defs str_truthy_def)
  have ty: "ed_type manual_notice = MtEnum ?nt"
    by (simp add: fixture_defs)
  have f: "msgtypes ?off = [''Plugin'']" "msgtypes ?on = [''Plugin'']" "msgtypes two_servers = []"
    "\<not> other_msgtypes ?off" "other_msgtypes ?on"
    by (simp_all add: fixture_defs)
  have 1: "send ?off (\<lambda>k. accepting_world) (Some manual_notice) = Skipped TypeNotEnabled"
    using allow_list_filter [OF e(1) c t, of ?nt "\<lambda>k. accepting_world"] ty f by simp
  have 2: "send ?on (\<lambda>k. accepting_world) (Some manual_notice)
       = Dispatched (master_program ?on (\<lambda>k. accepting_world) (Some ''Download complete'') None
           (MtEnum ?nt) None ImgNone)"
    using allow_list_filter [OF e(2) c t, of ?nt "\<lambda>k. accepting_world"] ty f
    by (simp add: manual_notice_def)
  have 3: "send two_servers (\<lambda>k. accepting_world) (Some manual_notice)
       = Dispatched (master_program two_servers (\<lambda>k. accepting_world) (Some ''Download complete'')
           None (MtEnum ?nt) None ImgNone)"
    using allow_list_filter [OF e(3) c t, of ?nt "\<lambda>k. accepting_world"] ty f
    by (simp add: manual_notice_def)
  from e c t' ty 1 2 3 show ?thesis by simp
qed

end
